theory Spec2Isabelle
  imports Complex_Main
begin

section \<open>Python string operations used by the driver\<close>

text \<open>
  Strings are lists of 8-bit characters. \<open>join\<close> is \<^verbatim>\<open>sep.join(xs)\<close>,
  \<open>split_on\<close> is \<^verbatim>\<open>s.split(sep)\<close> for a one-character separator (every single
  separator cuts, so two adjacent separators give an empty word and the empty string gives
  one empty word). \<^verbatim>\<open>s.lower()\<close> lowers every cased letter of Unicode: it is a function
  of the Python runtime and a parameter of the model (\<open>str_lower\<close> below). \<open>lower\<close>
  lowers the ASCII letters only and stands for it in the small environment.
\<close>

fun join :: "string \<Rightarrow> string list \<Rightarrow> string" where
  "join sep [] = []"
| "join sep [x] = x"
| "join sep (x # y # ys) = x @ sep @ join sep (y # ys)"

fun split_on :: "char \<Rightarrow> string \<Rightarrow> string list" where
  "split_on d [] = [[]]"
| "split_on d (c # cs) =
     (if c = d then [] # split_on d cs
      else (case split_on d cs of
              [] \<Rightarrow> [[c]]
            | w # ws \<Rightarrow> (c # w) # ws))"

definition lower_char :: "char \<Rightarrow> char" where
  "lower_char c =
     (let n = (of_char c :: nat) in if 65 \<le> n \<and> n \<le> 90 then char_of (n + 32) else c)"

definition lower :: "string \<Rightarrow> string" where
  "lower s = map lower_char s"

text \<open>\<^verbatim>\<open>range(n)\<close>: the integers from 0 up to n - 1, none when n is not positive.\<close>

definition range :: "int \<Rightarrow> int list" where
  "range n = [0..n - 1]"

section \<open>Data of the driver\<close>

text \<open>
  Objects of the libraries (recipes, tokenizer, model, datasets, tensors) are values of one
  opaque type \<open>'o\<close>: the driver only passes them on. Where the driver reads or writes an
  attribute, the object is a record with that attribute and an opaque rest.
\<close>

datatype config_class = PromptTuningConfig | OtherPeftConfig string

record 'o peft_recipe =
  peft_config_obj :: config_class
  peft_recipe_rest :: 'o

record 'o peft_config =
  num_virtual_tokens :: int
  prompt_tuning_init_text :: "string option"
  peft_config_rest :: 'o

record 'o model_template_recipe =
  postprocess_function :: 'o
  model_template_rest :: 'o

text \<open>The attributes of \<^verbatim>\<open>ConfigTrain\<close> that the driver reads.\<close>

record 'o config_train =
  verbose :: bool
  training_arguments :: 'o
  model_name :: string
  peft_recipe :: "'o peft_recipe option"
  prompt_tuning_most_common_init :: bool
  dataset_recipe :: 'o
  dataset_name :: string
  tokenizer_recipe :: 'o
  model_recipe :: 'o
  quantization_recipe :: "'o option"
  model_template_recipe :: "'o model_template_recipe"
  num_examples :: 'o
  num_proc :: 'o
  dynamic_examples :: bool
  validation_split_size :: "rat option"
  training_size :: "int option"
  system_tuning :: bool

text \<open>
  The keyword arguments of \<^verbatim>\<open>get_support_and_tuning_dataset\<close>. The call for the
  training split gives \<^verbatim>\<open>num_examples\<close> and no \<^verbatim>\<open>dataset_support\<close>, the call for the
  validation split the other way round.
\<close>

record 'o dataset_kwargs =
  kw_split :: string
  kw_num_examples :: "'o option"
  kw_dataset_support :: "'o option"
  kw_postprocess_function :: 'o
  kw_eos_token :: "string option"
  kw_include_labels_inside_text :: bool
  kw_num_proc :: 'o
  kw_dynamic_examples :: bool

record generation_config =
  max_new_tokens :: int
  num_return_sequences :: int
  temperature :: rat
  top_p :: rat
  do_sample :: bool
  pad_token_id :: "int option"

datatype error = UncaughtException | AssertionError string | IndexError

section \<open>The libraries the driver calls\<close>

text \<open>
  Every function of a library is a parameter. A call reads the state \<open>'r\<close> of the global
  random number generators and returns the state it leaves, so that a call may draw random
  numbers. \<^verbatim>\<open>transformers.set_seed\<close> gives the state that a seed determines.
  \<^verbatim>\<open>get_support_and_tuning_dataset\<close> returns \<open>None\<close> when it raises: the driver catches
  that for the validation split. \<^verbatim>\<open>select\<close> returns \<open>None\<close> when an index is out of range
  (it raises IndexError). The other calls are taken as returning.
  Attribute reads (\<^verbatim>\<open>dataset["text"]\<close>, \<^verbatim>\<open>tokenizer.eos_token\<close>,
  \<^verbatim>\<open>tokenizer.eos_token_id\<close>, \<^verbatim>\<open>model.device\<close>) are functions of the object.
\<close>

record ('o, 'r) env =
  set_seed :: "int \<Rightarrow> 'r"
  get_config_from_argparser :: "'r \<Rightarrow> 'o config_train \<times> 'r"
  PeftDispatcher_get_peft_config :: "'o peft_recipe \<Rightarrow> 'r \<Rightarrow> 'o peft_config \<times> 'r"
  DatasetDispatcher_get_tuning_dataset ::
    "'o \<Rightarrow> string \<Rightarrow> string \<Rightarrow> string \<Rightarrow> bool \<Rightarrow> 'r \<Rightarrow> 'o \<times> 'r"
  most_common_words :: "string list \<Rightarrow> int \<Rightarrow> 'r \<Rightarrow> string list \<times> 'r"
  TokenizerDispatcher_get_tokenizer :: "'o \<Rightarrow> string \<Rightarrow> 'r \<Rightarrow> 'o \<times> 'r"
  QuantizationDispatcher_get_quantization_config :: "'o \<Rightarrow> 'r \<Rightarrow> 'o \<times> 'r"
  ModelDispatcher_get_model ::
    "'o \<Rightarrow> string \<Rightarrow> 'o option \<Rightarrow> 'o peft_config option \<Rightarrow> 'r \<Rightarrow> 'o \<times> 'r"
  DatasetDispatcher_get_support_and_tuning_dataset ::
    "'o \<Rightarrow> string \<Rightarrow> 'o dataset_kwargs \<Rightarrow> 'r \<Rightarrow> ('o \<times> 'o) option \<times> 'r"
  train_test_split :: "'o \<Rightarrow> rat \<Rightarrow> 'r \<Rightarrow> ('o \<times> 'o) \<times> 'r"
  select :: "'o \<Rightarrow> int list \<Rightarrow> 'r \<Rightarrow> 'o option \<times> 'r"
  fit_system_template_tokens ::
    "'o \<Rightarrow> 'o model_template_recipe \<Rightarrow> 'o \<Rightarrow> 'r \<Rightarrow> 'o \<times> 'r"
  SystemTuning_add_proxy :: "'o \<Rightarrow> 'o \<Rightarrow> 'o \<Rightarrow> 'r \<Rightarrow> 'o \<times> 'r"
  encode :: "'o \<Rightarrow> string \<Rightarrow> 'r \<Rightarrow> 'o \<times> 'r"
  to_device :: "'o \<Rightarrow> 'o \<Rightarrow> 'r \<Rightarrow> 'o \<times> 'r"
  generate :: "'o \<Rightarrow> 'o \<Rightarrow> generation_config \<Rightarrow> 'r \<Rightarrow> 'o list \<times> 'r"
  decode :: "'o \<Rightarrow> 'o \<Rightarrow> bool \<Rightarrow> 'r \<Rightarrow> string \<times> 'r"
  text_column :: "'o \<Rightarrow> string list"
  eos_token :: "'o \<Rightarrow> string option"
  eos_token_id :: "'o \<Rightarrow> int option"
  device :: "'o \<Rightarrow> 'o"
  str_lower :: "string \<Rightarrow> string"

section \<open>The run: calls in order, generator state, standard output\<close>

text \<open>One event for each call into a library, with the arguments of the call.\<close>

datatype 'o event =
    Ev_set_seed int
  | Ev_get_config_from_argparser
  | Ev_PeftDispatcher "'o peft_recipe"
  | Ev_get_tuning_dataset 'o string string string bool
  | Ev_most_common_words "string list" int
  | Ev_TokenizerDispatcher 'o string
  | Ev_QuantizationDispatcher 'o
  | Ev_ModelDispatcher 'o string "'o option" "'o peft_config option"
  | Ev_get_support_and_tuning_dataset 'o string "'o dataset_kwargs"
  | Ev_train_test_split 'o rat
  | Ev_select 'o "int list"
  | Ev_fit_system_template_tokens 'o "'o model_template_recipe" 'o
  | Ev_add_proxy 'o 'o 'o
  | Ev_encode 'o string
  | Ev_to_device 'o 'o
  | Ev_generate 'o 'o generation_config
  | Ev_decode 'o 'o bool
  | Ev_print string

record ('o, 'r) world =
  trace :: "'o event list"
  rng :: 'r
  stdout :: "string list"

text \<open>A call into a library: the event is appended, the generator state is threaded.\<close>

definition ext ::
  "'o event \<Rightarrow> ('r \<Rightarrow> 'a \<times> 'r) \<Rightarrow> ('o, 'r) world \<Rightarrow> 'a \<times> ('o, 'r) world" where
  "ext ev f w =
     (case f (rng w) of (v, r') \<Rightarrow> (v, w\<lparr>trace := trace w @ [ev], rng := r'\<rparr>))"

section \<open>The driver\<close>

text \<open>
  The driver is modelled section by section, in the order of the file. Calls of the logger
  only write to the log and are left out, except that the two messages after the dataset
  section index the first element of the text column, which fails on an empty column.
  \<^verbatim>\<open>training_arguments\<close> and \<^verbatim>\<open>output_path\<close> are read from the configuration and
  then never used; \<^verbatim>\<open>FineTuner\<close> is imported and never called.
\<close>

subsection \<open>Peft config initialization (lines 62 to 72)\<close>

definition is_prompt_tuning :: "'o peft_recipe option \<Rightarrow> bool" where
  "is_prompt_tuning pr =
     (case pr of None \<Rightarrow> False | Some r \<Rightarrow> peft_config_obj r = PromptTuningConfig)"

definition init_words :: "('o, 'r) env \<Rightarrow> 'o \<Rightarrow> string list" where
  "init_words E dataset_train =
     split_on (CHR '' '') (str_lower E (join '' '' (text_column E dataset_train)))"

definition peft_stage ::
  "('o, 'r) env \<Rightarrow> 'o config_train \<Rightarrow> ('o, 'r) world
    \<Rightarrow> 'o peft_config option \<times> ('o, 'r) world" where
  "peft_stage E config w =
     (case peft_recipe config of
        None \<Rightarrow> (None, w)
      | Some pr \<Rightarrow>
          (case ext (Ev_PeftDispatcher pr) (PeftDispatcher_get_peft_config E pr) w of
             (peft_config, w1) \<Rightarrow>
               if is_prompt_tuning (peft_recipe config) \<and> prompt_tuning_most_common_init config
               then
                 (case ext (Ev_get_tuning_dataset (dataset_recipe config) (dataset_name config)
                              ''train'' [] False)
                           (DatasetDispatcher_get_tuning_dataset E (dataset_recipe config)
                              (dataset_name config) ''train'' [] False) w1 of
                    (dataset_train, w2) \<Rightarrow>
                      (case ext (Ev_most_common_words (init_words E dataset_train)
                                   (num_virtual_tokens peft_config))
                                (most_common_words E (init_words E dataset_train)
                                   (num_virtual_tokens peft_config)) w2 of
                         (common, w3) \<Rightarrow>
                           (Some (peft_config\<lparr>prompt_tuning_init_text :=
                                                Some (join '' '' common)\<rparr>), w3)))
               else (Some peft_config, w1)))"

subsection \<open>Tokenizer and model (lines 79 to 87)\<close>

definition quantization_stage ::
  "('o, 'r) env \<Rightarrow> 'o config_train \<Rightarrow> ('o, 'r) world \<Rightarrow> 'o option \<times> ('o, 'r) world" where
  "quantization_stage E config w =
     (case quantization_recipe config of
        None \<Rightarrow> (None, w)
      | Some qr \<Rightarrow>
          (case ext (Ev_QuantizationDispatcher qr)
                    (QuantizationDispatcher_get_quantization_config E qr) w of
             (quantization_config, w1) \<Rightarrow> (Some quantization_config, w1)))"

definition model_stage ::
  "('o, 'r) env \<Rightarrow> 'o config_train \<Rightarrow> 'o peft_config option \<Rightarrow> ('o, 'r) world
    \<Rightarrow> ('o \<times> 'o option \<times> 'o) \<times> ('o, 'r) world" where
  "model_stage E config peft_config w =
     (case ext (Ev_TokenizerDispatcher (tokenizer_recipe config) (model_name config))
               (TokenizerDispatcher_get_tokenizer E (tokenizer_recipe config)
                  (model_name config)) w of
        (tokenizer, w1) \<Rightarrow>
          (case quantization_stage E config w1 of
             (quantization_config, w2) \<Rightarrow>
               (case ext (Ev_ModelDispatcher (model_recipe config) (model_name config)
                            quantization_config peft_config)
                         (ModelDispatcher_get_model E (model_recipe config) (model_name config)
                            quantization_config peft_config) w2 of
                  (model, w3) \<Rightarrow> ((tokenizer, quantization_config, model), w3))))"

subsection \<open>Dataset (lines 104 to 137)\<close>

definition kwargs_train :: "('o, 'r) env \<Rightarrow> 'o config_train \<Rightarrow> 'o \<Rightarrow> 'o dataset_kwargs" where
  "kwargs_train E config tokenizer =
     \<lparr>kw_split = ''train'',
      kw_num_examples = Some (num_examples config),
      kw_dataset_support = None,
      kw_postprocess_function = postprocess_function (model_template_recipe config),
      kw_eos_token = eos_token E tokenizer,
      kw_include_labels_inside_text = True,
      kw_num_proc = num_proc config,
      kw_dynamic_examples = dynamic_examples config\<rparr>"

definition kwargs_validation ::
  "('o, 'r) env \<Rightarrow> 'o config_train \<Rightarrow> 'o \<Rightarrow> 'o \<Rightarrow> 'o dataset_kwargs" where
  "kwargs_validation E config tokenizer dataset_support =
     \<lparr>kw_split = ''validation'',
      kw_num_examples = None,
      kw_dataset_support = Some dataset_support,
      kw_postprocess_function = postprocess_function (model_template_recipe config),
      kw_eos_token = eos_token E tokenizer,
      kw_include_labels_inside_text = True,
      kw_num_proc = num_proc config,
      kw_dynamic_examples = dynamic_examples config\<rparr>"

definition assert_message :: string where
  "assert_message =
     ''No validation set is available but validation split size has not been specified''"

text \<open>\<^verbatim>\<open>if config.training_size:\<close> holds for an integer other than 0.\<close>

definition truthy :: "int option \<Rightarrow> bool" where
  "truthy n = (case n of None \<Rightarrow> False | Some k \<Rightarrow> k \<noteq> 0)"

text \<open>
  Lines 136 and 137: the two messages take the first element of the text column of each
  set, which fails when the column is empty.
\<close>

definition first_prompts ::
  "('o, 'r) env \<Rightarrow> 'o \<Rightarrow> 'o \<Rightarrow> 'o \<Rightarrow> ('o, 'r) world
    \<Rightarrow> (error + 'o \<times> 'o \<times> 'o) \<times> ('o, 'r) world" where
  "first_prompts E dataset_support dataset_train dataset_val w =
     (if text_column E dataset_train = [] then (Inl IndexError, w)
      else if text_column E dataset_val = [] then (Inl IndexError, w)
      else (Inr (dataset_support, dataset_train, dataset_val), w))"

text \<open>Lines 133 to 137: the selection of the training size, then the two first prompts.\<close>

definition dataset_tail ::
  "('o, 'r) env \<Rightarrow> 'o config_train \<Rightarrow> 'o \<Rightarrow> 'o \<Rightarrow> 'o \<Rightarrow> ('o, 'r) world
    \<Rightarrow> (error + 'o \<times> 'o \<times> 'o) \<times> ('o, 'r) world" where
  "dataset_tail E config dataset_support dataset_train dataset_val w =
     (case training_size config of
        None \<Rightarrow> first_prompts E dataset_support dataset_train dataset_val w
      | Some n \<Rightarrow>
          if truthy (Some n)
          then (case ext (Ev_select dataset_train (range n))
                         (select E dataset_train (range n)) w of
                  (None, w1) \<Rightarrow> (Inl IndexError, w1)
                | (Some selected, w1) \<Rightarrow>
                    first_prompts E dataset_support selected dataset_val w1)
          else first_prompts E dataset_support dataset_train dataset_val w)"

definition dataset_stage ::
  "('o, 'r) env \<Rightarrow> 'o config_train \<Rightarrow> 'o \<Rightarrow> ('o, 'r) world
    \<Rightarrow> (error + 'o \<times> 'o \<times> 'o) \<times> ('o, 'r) world" where
  "dataset_stage E config tokenizer w =
     (case ext (Ev_get_support_and_tuning_dataset (dataset_recipe config) (dataset_name config)
                  (kwargs_train E config tokenizer))
               (DatasetDispatcher_get_support_and_tuning_dataset E (dataset_recipe config)
                  (dataset_name config) (kwargs_train E config tokenizer)) w of
        (None, w1) \<Rightarrow> (Inl UncaughtException, w1)
      | (Some (dataset_support, dataset_train), w1) \<Rightarrow>
          (case ext (Ev_get_support_and_tuning_dataset (dataset_recipe config)
                       (dataset_name config)
                       (kwargs_validation E config tokenizer dataset_support))
                    (DatasetDispatcher_get_support_and_tuning_dataset E (dataset_recipe config)
                       (dataset_name config)
                       (kwargs_validation E config tokenizer dataset_support)) w1 of
             (Some (_, dataset_val), w2) \<Rightarrow>
               dataset_tail E config dataset_support dataset_train dataset_val w2
           | (None, w2) \<Rightarrow>
               (case validation_split_size config of
                  None \<Rightarrow> (Inl (AssertionError assert_message), w2)
                | Some test_size \<Rightarrow>
                    (case ext (Ev_train_test_split dataset_train test_size)
                              (train_test_split E dataset_train test_size) w2 of
                       ((new_train, new_test), w3) \<Rightarrow>
                         dataset_tail E config dataset_support new_train new_test w3))))"

subsection \<open>System template (lines 152 to 155)\<close>

definition system_stage ::
  "('o, 'r) env \<Rightarrow> 'o config_train \<Rightarrow> 'o \<Rightarrow> 'o \<Rightarrow> 'o \<Rightarrow> ('o, 'r) world
    \<Rightarrow> 'o \<times> ('o, 'r) world" where
  "system_stage E config tokenizer model dataset_train w =
     (if is_prompt_tuning (peft_recipe config) \<and> system_tuning config
      then
        (case ext (Ev_fit_system_template_tokens dataset_train (model_template_recipe config)
                     tokenizer)
                  (fit_system_template_tokens E dataset_train (model_template_recipe config)
                     tokenizer) w of
           (system_template, w1) \<Rightarrow>
             ext (Ev_add_proxy model system_template tokenizer)
                 (SystemTuning_add_proxy E model system_template tokenizer) w1)
      else (model, w))"

subsection \<open>Generation (lines 159 to 172)\<close>

definition test_prompt :: string where
  "test_prompt = ''[INST] This is a test, answer with a fun fact about life: [/INST]''"

definition the_generation_config :: "('o, 'r) env \<Rightarrow> 'o \<Rightarrow> generation_config" where
  "the_generation_config E tokenizer =
     \<lparr>max_new_tokens = 100,
      num_return_sequences = 4,
      temperature = 6 / 10,
      top_p = 9 / 10,
      do_sample = True,
      pad_token_id = eos_token_id E tokenizer\<rparr>"

text \<open>
  \<^verbatim>\<open>print("\n###########\n", generated_texts)\<close> writes the two arguments with a space
  between them and a newline after them.
\<close>

definition printed :: "string \<Rightarrow> string" where
  "printed generated_texts =
     [CHR 0x0A] @ ''###########'' @ [CHR 0x0A] @ '' '' @ generated_texts @ [CHR 0x0A]"

fun print_outputs ::
  "('o, 'r) env \<Rightarrow> 'o \<Rightarrow> 'o list \<Rightarrow> ('o, 'r) world \<Rightarrow> string list \<times> ('o, 'r) world" where
  "print_outputs E tokenizer [] w = ([], w)"
| "print_outputs E tokenizer (output # outputs) w =
     (case ext (Ev_decode tokenizer output True) (decode E tokenizer output True) w of
        (generated_texts, w1) \<Rightarrow>
          (case print_outputs E tokenizer outputs
                  (w1\<lparr>trace := trace w1 @ [Ev_print (printed generated_texts)],
                      stdout := stdout w1 @ [printed generated_texts]\<rparr>) of
             (texts, w2) \<Rightarrow> (generated_texts # texts, w2)))"

definition generation_stage ::
  "('o, 'r) env \<Rightarrow> 'o \<Rightarrow> 'o \<Rightarrow> ('o, 'r) world
    \<Rightarrow> ('o list \<times> string list) \<times> ('o, 'r) world" where
  "generation_stage E tokenizer model w =
     (case ext (Ev_encode tokenizer test_prompt) (encode E tokenizer test_prompt) w of
        (ids, w1) \<Rightarrow>
          (case ext (Ev_to_device ids (device E model)) (to_device E ids (device E model)) w1 of
             (input_ids, w2) \<Rightarrow>
               (case ext (Ev_generate model input_ids (the_generation_config E tokenizer))
                         (generate E model input_ids (the_generation_config E tokenizer)) w2 of
                  (outputs, w3) \<Rightarrow>
                    (case print_outputs E tokenizer outputs w3 of
                       (texts, w4) \<Rightarrow> ((outputs, texts), w4)))))"

subsection \<open>The whole file\<close>

record 'o locals =
  l_peft_config :: "'o peft_config option"
  l_tokenizer :: 'o
  l_quantization_config :: "'o option"
  l_base_model :: 'o
  l_dataset_support :: 'o
  l_dataset_train :: 'o
  l_dataset_val :: 'o
  l_model :: 'o
  l_outputs :: "'o list"
  l_texts :: "string list"

text \<open>Lines 25 to 172, for the configuration that the argument parser returned.\<close>

definition driver ::
  "('o, 'r) env \<Rightarrow> 'o config_train \<Rightarrow> ('o, 'r) world
    \<Rightarrow> (error + 'o locals) \<times> ('o, 'r) world" where
  "driver E config w =
     (case peft_stage E config w of
        (peft_config, w1) \<Rightarrow>
          (case model_stage E config peft_config w1 of
             ((tokenizer, quantization_config, model), w2) \<Rightarrow>
               (case dataset_stage E config tokenizer w2 of
                  (Inl err, w3) \<Rightarrow> (Inl err, w3)
                | (Inr (dataset_support, dataset_train, dataset_val), w3) \<Rightarrow>
                    (case system_stage E config tokenizer model dataset_train w3 of
                       (model', w4) \<Rightarrow>
                         (case generation_stage E tokenizer model' w4 of
                            ((outputs, texts), w5) \<Rightarrow>
                              (Inr \<lparr>l_peft_config = peft_config,
                                    l_tokenizer = tokenizer,
                                    l_quantization_config = quantization_config,
                                    l_base_model = model,
                                    l_dataset_support = dataset_support,
                                    l_dataset_train = dataset_train,
                                    l_dataset_val = dataset_val,
                                    l_model = model',
                                    l_outputs = outputs,
                                    l_texts = texts\<rparr>, w5))))))"

text \<open>
  Line 15 and line 23, then the rest: the seed is set when the module is loaded, whatever
  state \<open>r0\<close> the generators were in, and the configuration is parsed first in the main block.
\<close>

definition seed_call :: "('o, 'r) env \<Rightarrow> int \<Rightarrow> ('o, 'r) world \<Rightarrow> ('o, 'r) world" where
  "seed_call E seed w = w\<lparr>trace := trace w @ [Ev_set_seed seed], rng := set_seed E seed\<rparr>"

definition parsed_config :: "('o, 'r) env \<Rightarrow> 'o config_train" where
  "parsed_config E = fst (get_config_from_argparser E (set_seed E 42))"

definition main :: "('o, 'r) env \<Rightarrow> 'r \<Rightarrow> (error + 'o locals) \<times> ('o, 'r) world" where
  "main E r0 =
     (case ext Ev_get_config_from_argparser (get_config_from_argparser E)
               (seed_call E 42 \<lparr>trace = [], rng = r0, stdout = []\<rparr>) of
        (config, w1) \<Rightarrow> driver E config w1)"

section \<open>A small environment to run the driver on\<close>

text \<open>
  Objects are strings and the generator state is a counter. The hub has a validation split
  or not, as the argument says; the configuration asks for prompt tuning with both options.
\<close>

definition demo_config :: "string config_train" where
  "demo_config =
     \<lparr>verbose = False,
      training_arguments = ''args'',
      model_name = ''llama'',
      peft_recipe = Some \<lparr>peft_config_obj = PromptTuningConfig, peft_recipe_rest = ''pt''\<rparr>,
      prompt_tuning_most_common_init = True,
      dataset_recipe = ''recipe'',
      dataset_name = ''gsm8k'',
      tokenizer_recipe = ''tok'',
      model_recipe = ''mod'',
      quantization_recipe = Some ''4bit'',
      model_template_recipe = \<lparr>postprocess_function = ''pp'', model_template_rest = ''tmpl''\<rparr>,
      num_examples = ''2'',
      num_proc = ''1'',
      dynamic_examples = False,
      validation_split_size = Some (1 / 5),
      training_size = None,
      system_tuning = True\<rparr>"

text \<open>The same configuration without a PEFT recipe and without a quantization recipe.\<close>

definition plain_config :: "string config_train" where
  "plain_config = demo_config\<lparr>peft_recipe := None, quantization_recipe := None\<rparr>"

definition demo_env :: "bool \<Rightarrow> string config_train \<Rightarrow> (string, nat) env" where
  "demo_env has_validation config =
     \<lparr>set_seed = (\<lambda>seed. nat seed),
      get_config_from_argparser = (\<lambda>r. (config, r)),
      PeftDispatcher_get_peft_config = (\<lambda>pr r.
         (\<lparr>num_virtual_tokens = 2, prompt_tuning_init_text = None,
           peft_config_rest = peft_recipe_rest pr\<rparr>, r)),
      DatasetDispatcher_get_tuning_dataset = (\<lambda>recipe name split eos labels r. (''raw'', r)),
      most_common_words = (\<lambda>words n r. (take (nat n) words, r)),
      TokenizerDispatcher_get_tokenizer = (\<lambda>recipe name r. (''tokenizer'', r)),
      QuantizationDispatcher_get_quantization_config = (\<lambda>recipe r. (''bnb'', r)),
      ModelDispatcher_get_model = (\<lambda>recipe name qc pc r. (''model'', Suc r)),
      DatasetDispatcher_get_support_and_tuning_dataset = (\<lambda>recipe name kw r.
         (if kw_split kw = ''validation'' \<and> \<not> has_validation then None
          else Some (''support'', kw_split kw), r)),
      train_test_split = (\<lambda>d test_size r. ((''part1'', ''part2''), Suc r)),
      select = (\<lambda>d indices r. (Some ''selected'', r)),
      fit_system_template_tokens = (\<lambda>d recipe tokenizer r. (''template'', r)),
      SystemTuning_add_proxy = (\<lambda>model template tokenizer r. (''proxy'', r)),
      encode = (\<lambda>tokenizer s r. (''ids'', r)),
      to_device = (\<lambda>x d r. (x, r)),
      generate = (\<lambda>model ids gc r.
         (if num_return_sequences gc = 4 then [''o1'', ''o2'', ''o3'', ''o4'']
          else replicate (nat (num_return_sequences gc)) ''o'', r + 4)),
      decode = (\<lambda>tokenizer output skip r. (''fact '' @ output, r)),
      text_column = (\<lambda>d. [''The cat'', ''the dog'']),
      eos_token = (\<lambda>tokenizer. Some ''</s>''),
      eos_token_id = (\<lambda>tokenizer. Some 2),
      device = (\<lambda>model. ''cuda''),
      str_lower = lower\<rparr>"

text \<open>
  The configuration without a validation split size, and the outcome and the calls of the run
  on \<open>demo_env True demo_config\<close>.
\<close>

definition noval_config :: "string config_train" where
  "noval_config = demo_config\<lparr>validation_split_size := None\<rparr>"

definition demo_locals :: "string locals" where
  "demo_locals =
     \<lparr>l_peft_config = Some \<lparr>num_virtual_tokens = 2, prompt_tuning_init_text = Some ''the cat'',
                             peft_config_rest = ''pt''\<rparr>,
      l_tokenizer = ''tokenizer'',
      l_quantization_config = Some ''bnb'',
      l_base_model = ''model'',
      l_dataset_support = ''support'',
      l_dataset_train = ''train'',
      l_dataset_val = ''validation'',
      l_model = ''proxy'',
      l_outputs = [''o1'', ''o2'', ''o3'', ''o4''],
      l_texts = [''fact o1'', ''fact o2'', ''fact o3'', ''fact o4'']\<rparr>"

definition demo_trace :: "string event list" where
  "demo_trace =
     [Ev_set_seed 42,
      Ev_get_config_from_argparser,
      Ev_PeftDispatcher \<lparr>peft_config_obj = PromptTuningConfig, peft_recipe_rest = ''pt''\<rparr>,
      Ev_get_tuning_dataset ''recipe'' ''gsm8k'' ''train'' [] False,
      Ev_most_common_words [''the'', ''cat'', ''the'', ''dog''] 2,
      Ev_TokenizerDispatcher ''tok'' ''llama'',
      Ev_QuantizationDispatcher ''4bit'',
      Ev_ModelDispatcher ''mod'' ''llama'' (Some ''bnb'')
        (Some \<lparr>num_virtual_tokens = 2, prompt_tuning_init_text = Some ''the cat'',
                peft_config_rest = ''pt''\<rparr>),
      Ev_get_support_and_tuning_dataset ''recipe'' ''gsm8k''
        \<lparr>kw_split = ''train'', kw_num_examples = Some ''2'', kw_dataset_support = None,
         kw_postprocess_function = ''pp'', kw_eos_token = Some ''</s>'',
         kw_include_labels_inside_text = True, kw_num_proc = ''1'',
         kw_dynamic_examples = False\<rparr>,
      Ev_get_support_and_tuning_dataset ''recipe'' ''gsm8k''
        \<lparr>kw_split = ''validation'', kw_num_examples = None,
         kw_dataset_support = Some ''support'',
         kw_postprocess_function = ''pp'', kw_eos_token = Some ''</s>'',
         kw_include_labels_inside_text = True, kw_num_proc = ''1'',
         kw_dynamic_examples = False\<rparr>,
      Ev_fit_system_template_tokens ''train''
        \<lparr>postprocess_function = ''pp'', model_template_rest = ''tmpl''\<rparr> ''tokenizer'',
      Ev_add_proxy ''model'' ''template'' ''tokenizer'',
      Ev_encode ''tokenizer'' test_prompt,
      Ev_to_device ''ids'' ''cuda'',
      Ev_generate ''proxy'' ''ids''
        \<lparr>max_new_tokens = 100, num_return_sequences = 4, temperature = 6 / 10,
         top_p = 9 / 10, do_sample = True, pad_token_id = Some 2\<rparr>,
      Ev_decode ''tokenizer'' ''o1'' True, Ev_print (printed ''fact o1''),
      Ev_decode ''tokenizer'' ''o2'' True, Ev_print (printed ''fact o2''),
      Ev_decode ''tokenizer'' ''o3'' True, Ev_print (printed ''fact o3''),
      Ev_decode ''tokenizer'' ''o4'' True, Ev_print (printed ''fact o4'')]"

section \<open>Properties of runs\<close>

text \<open>
  The position of a call in the file: the number of the pipeline step that makes it. The
  decoding and the printing of the last loop share the last step.
\<close>

fun stage_of :: "'o event \<Rightarrow> nat" where
  "stage_of (Ev_set_seed _) = 0"
| "stage_of Ev_get_config_from_argparser = 1"
| "stage_of (Ev_PeftDispatcher _) = 2"
| "stage_of (Ev_get_tuning_dataset _ _ _ _ _) = 3"
| "stage_of (Ev_most_common_words _ _) = 4"
| "stage_of (Ev_TokenizerDispatcher _ _) = 5"
| "stage_of (Ev_QuantizationDispatcher _) = 6"
| "stage_of (Ev_ModelDispatcher _ _ _ _) = 7"
| "stage_of (Ev_get_support_and_tuning_dataset _ _ _) = 8"
| "stage_of (Ev_train_test_split _ _) = 9"
| "stage_of (Ev_select _ _) = 10"
| "stage_of (Ev_fit_system_template_tokens _ _ _) = 11"
| "stage_of (Ev_add_proxy _ _ _) = 12"
| "stage_of (Ev_encode _ _) = 13"
| "stage_of (Ev_to_device _ _) = 14"
| "stage_of (Ev_generate _ _ _) = 15"
| "stage_of (Ev_decode _ _ _) = 16"
| "stage_of (Ev_print _) = 16"

text \<open>A dispatcher is called on the recipe (and the name) of the configuration.\<close>

fun dispatched_from :: "'o config_train \<Rightarrow> 'o event \<Rightarrow> bool" where
  "dispatched_from c (Ev_PeftDispatcher pr) = (peft_recipe c = Some pr)"
| "dispatched_from c (Ev_get_tuning_dataset dr dn _ _ _) =
     (dr = dataset_recipe c \<and> dn = dataset_name c)"
| "dispatched_from c (Ev_TokenizerDispatcher tr mn) =
     (tr = tokenizer_recipe c \<and> mn = model_name c)"
| "dispatched_from c (Ev_QuantizationDispatcher qr) = (quantization_recipe c = Some qr)"
| "dispatched_from c (Ev_ModelDispatcher mr mn _ _) =
     (mr = model_recipe c \<and> mn = model_name c)"
| "dispatched_from c (Ev_get_support_and_tuning_dataset dr dn _) =
     (dr = dataset_recipe c \<and> dn = dataset_name c)"
| "dispatched_from c _ = True"

definition staged :: "'o config_train \<Rightarrow> nat \<Rightarrow> nat \<Rightarrow> 'o event list \<Rightarrow> bool" where
  "staged c lo hi evs =
     (sorted (map stage_of evs) \<and> list_all (dispatched_from c) evs \<and>
      list_all (\<lambda>e. lo \<le> stage_of e \<and> stage_of e \<le> hi) evs)"

text \<open>The second world continues the first by calls of the steps lo to hi, printing nothing.\<close>

definition extends ::
  "'o config_train \<Rightarrow> nat \<Rightarrow> nat \<Rightarrow> ('o, 'r) world \<Rightarrow> ('o, 'r) world \<Rightarrow> bool" where
  "extends c lo hi w w' =
     (\<exists>evs. trace w' = trace w @ evs \<and> staged c lo hi evs \<and> stdout w' = stdout w)"

text \<open>Every call that satisfies P comes before every call that satisfies Q.\<close>

fun all_before :: "('a \<Rightarrow> bool) \<Rightarrow> ('a \<Rightarrow> bool) \<Rightarrow> 'a list \<Rightarrow> bool" where
  "all_before P Q [] = True"
| "all_before P Q (e # es) = ((Q e \<longrightarrow> \<not> list_ex P es) \<and> all_before P Q es)"

definition is_parse :: "'o event \<Rightarrow> bool" where
  "is_parse e = (case e of Ev_get_config_from_argparser \<Rightarrow> True | _ \<Rightarrow> False)"

definition is_PeftDispatcher :: "'o event \<Rightarrow> bool" where
  "is_PeftDispatcher e = (case e of Ev_PeftDispatcher _ \<Rightarrow> True | _ \<Rightarrow> False)"

definition is_TokenizerDispatcher :: "'o event \<Rightarrow> bool" where
  "is_TokenizerDispatcher e = (case e of Ev_TokenizerDispatcher _ _ \<Rightarrow> True | _ \<Rightarrow> False)"

definition is_QuantizationDispatcher :: "'o event \<Rightarrow> bool" where
  "is_QuantizationDispatcher e = (case e of Ev_QuantizationDispatcher _ \<Rightarrow> True | _ \<Rightarrow> False)"

definition is_ModelDispatcher :: "'o event \<Rightarrow> bool" where
  "is_ModelDispatcher e = (case e of Ev_ModelDispatcher _ _ _ _ \<Rightarrow> True | _ \<Rightarrow> False)"

definition is_DatasetDispatcher :: "'o event \<Rightarrow> bool" where
  "is_DatasetDispatcher e =
     (case e of Ev_get_tuning_dataset _ _ _ _ _ \<Rightarrow> True
              | Ev_get_support_and_tuning_dataset _ _ _ \<Rightarrow> True
              | _ \<Rightarrow> False)"

definition is_dispatch :: "'o event \<Rightarrow> bool" where
  "is_dispatch e =
     (is_PeftDispatcher e \<or> is_TokenizerDispatcher e \<or> is_QuantizationDispatcher e \<or>
      is_ModelDispatcher e \<or> is_DatasetDispatcher e)"

definition is_alignment :: "'o event \<Rightarrow> bool" where
  "is_alignment e =
     (case e of Ev_fit_system_template_tokens _ _ _ \<Rightarrow> True
              | Ev_add_proxy _ _ _ \<Rightarrow> True
              | _ \<Rightarrow> False)"

definition is_generate :: "'o event \<Rightarrow> bool" where
  "is_generate e = (case e of Ev_generate _ _ _ \<Rightarrow> True | _ \<Rightarrow> False)"

definition print_events :: "'o \<Rightarrow> 'o list \<Rightarrow> string list \<Rightarrow> 'o event list" where
  "print_events tokenizer outputs texts =
     concat (map2 (\<lambda>output t. [Ev_decode tokenizer output True, Ev_print (printed t)]) outputs texts)"

definition decoded :: "('o, 'r) env \<Rightarrow> 'o \<Rightarrow> 'o list \<Rightarrow> string list \<Rightarrow> bool" where
  "decoded E tokenizer outputs texts =
     list_all2 (\<lambda>output t. \<exists>r. t = fst (decode E tokenizer output True r)) outputs texts"

section \<open>The string operations and the printed text on examples\<close>

lemma join_examples:
  "join '' '' [''the'', ''cat'', ''sat''] = ''the cat sat''"
  "join '' '' [''the''] = ''the''"
  "join '' '' [] = []"
  by simp_all

lemma split_on_examples:
  "split_on (CHR '' '') ''the cat'' = [''the'', ''cat'']"
  "split_on (CHR '' '') ''a  b '' = [''a'', [], ''b'', []]"
  "split_on (CHR '' '') [] = [[]]"
  by simp_all

lemma range_examples:
  "range 3 = [0, 1, 2]"
  "range 0 = []"
  "range (- 2) = []"
  by (simp_all add: range_def upto.simps)

lemma printed_example:
  "printed ''a fact'' =
     [CHR 0x0A, CHR ''#'', CHR ''#'', CHR ''#'', CHR ''#'', CHR ''#'', CHR ''#'', CHR ''#'',
      CHR ''#'', CHR ''#'', CHR ''#'', CHR ''#'', CHR 0x0A, CHR '' '',
      CHR ''a'', CHR '' '', CHR ''f'', CHR ''a'', CHR ''c'', CHR ''t'', CHR 0x0A]"
  by (simp add: printed_def)

lemma test_prompt_text:
  "test_prompt = ''[INST] This is a test, answer with a fun fact about life: [/INST]''"
  "length test_prompt = 65"
  by (simp_all add: test_prompt_def)

section \<open>The calls of each step\<close>

lemma ext_eq:
  "ext ev f w = (fst (f (rng w)), w\<lparr>trace := trace w @ [ev], rng := snd (f (rng w))\<rparr>)"
  by (simp add: ext_def case_prod_beta)

lemma staged_append:
  "staged c lo m xs \<Longrightarrow> staged c m' hi ys \<Longrightarrow> m \<le> m' \<Longrightarrow> lo \<le> m \<Longrightarrow> m' \<le> hi
    \<Longrightarrow> staged c lo hi (xs @ ys)"
  by (fastforce simp: staged_def sorted_append list_all_iff)

lemma extends_refl: "extends c lo hi w w"
  by (simp add: extends_def staged_def)

lemma extends_trans:
  "extends c lo m w w1 \<Longrightarrow> extends c m' hi w1 w2 \<Longrightarrow> m \<le> m' \<Longrightarrow> lo \<le> m \<Longrightarrow> m' \<le> hi
    \<Longrightarrow> extends c lo hi w w2"
  unfolding extends_def
  by (elim exE conjE) (rule_tac x = "evs @ evsa" in exI, simp add: staged_append)

lemma extends_update:
  "staged c lo hi evs \<Longrightarrow> extends c lo hi w (w\<lparr>trace := trace w @ evs, rng := r\<rparr>)"
  by (simp add: extends_def)

lemma peft_stage_ext: "extends config 2 4 w (snd (peft_stage E config w))"
  by (auto simp: peft_stage_def ext_eq staged_def extends_def split: option.splits)

lemma model_stage_ext: "extends config 5 7 w (snd (model_stage E config pc w))"
  by (auto simp: model_stage_def quantization_stage_def ext_eq staged_def extends_def
      split: option.splits)

lemma dataset_tail_ext: "extends config 10 10 w (snd (dataset_tail E config s t v w))"
  by (auto simp: dataset_tail_def first_prompts_def ext_eq staged_def extends_def
      split: option.splits prod.splits)

lemma extends_tail:
  "extends config 8 9 w w' \<Longrightarrow> extends config 8 10 w (snd (dataset_tail E config s t v w'))"
  by (rule extends_trans[where m=9 and m'=10, OF _ dataset_tail_ext]) simp_all

lemma dataset_stage_ext: "extends config 8 10 w (snd (dataset_stage E config tok w))"
  by (auto simp: dataset_stage_def ext_eq staged_def split: option.splits prod.splits
      intro!: extends_tail extends_update)

lemma system_stage_ext: "extends config 11 12 w (snd (system_stage E config tok m d w))"
  by (auto simp: system_stage_def ext_eq staged_def extends_def)

lemma print_outputs_facts:
  "print_outputs E tok outs w = (texts, w') \<Longrightarrow>
     trace w' = trace w @ print_events tok outs texts \<and> decoded E tok outs texts \<and>
     stdout w' = stdout w @ map printed texts"
proof (induction outs arbitrary: w texts w')
  case Nil
  then show ?case by (simp add: print_events_def decoded_def)
next
  case (Cons a outs)
  obtain t w1 where 1: "ext (Ev_decode tok a True) (decode E tok a True) w = (t, w1)"
    by (meson surj_pair)
  obtain ts w2 where 2: "print_outputs E tok outs
      (w1\<lparr>trace := trace w1 @ [Ev_print (printed t)], stdout := stdout w1 @ [printed t]\<rparr>) = (ts, w2)"
    by (meson surj_pair)
  from Cons.prems 1 2 have r: "texts = t # ts" "w' = w2" by simp_all
  from 1 have w1: "trace w1 = trace w @ [Ev_decode tok a True]" "stdout w1 = stdout w"
    "t = fst (decode E tok a True (rng w))"
    by (auto simp: ext_eq)
  from Cons.IH[OF 2] w1 show ?case
    unfolding r by (auto simp: print_events_def decoded_def)
qed

lemma generation_stage_facts:
  assumes "generation_stage E tok m w = ((outs, texts), w')"
  shows "\<exists>ids input_ids r. trace w' = trace w @ [Ev_encode tok test_prompt,
           Ev_to_device ids (device E m), Ev_generate m input_ids (the_generation_config E tok)]
           @ print_events tok outs texts \<and>
         outs = fst (generate E m input_ids (the_generation_config E tok) r) \<and>
         decoded E tok outs texts \<and> stdout w' = stdout w @ map printed texts"
proof -
  obtain ids w1 where 1: "ext (Ev_encode tok test_prompt) (encode E tok test_prompt) w = (ids, w1)"
    by (meson surj_pair)
  obtain input_ids w2 where 2: "ext (Ev_to_device ids (device E m)) (to_device E ids (device E m)) w1 = (input_ids, w2)"
    by (meson surj_pair)
  obtain os w3 where 3: "ext (Ev_generate m input_ids (the_generation_config E tok))
      (generate E m input_ids (the_generation_config E tok)) w2 = (os, w3)"
    by (meson surj_pair)
  obtain ts w4 where 4: "print_outputs E tok os w3 = (ts, w4)"
    by (meson surj_pair)
  from assms have r: "outs = os" "texts = ts" "w' = w4"
    by (simp_all add: generation_stage_def 1 2 3 4)
  have w3: "trace w3 = trace w @ [Ev_encode tok test_prompt, Ev_to_device ids (device E m),
      Ev_generate m input_ids (the_generation_config E tok)]" "stdout w3 = stdout w"
    "os = fst (generate E m input_ids (the_generation_config E tok) (rng w2))"
    using 1 2 3 by (auto simp: ext_eq)
  from print_outputs_facts[OF 4] w3 show ?thesis
    unfolding r by auto
qed

lemma print_events_staged: "staged c 16 16 (print_events tok outs texts)"
  unfolding print_events_def
proof (induction outs arbitrary: texts)
  case Nil then show ?case by (simp add: staged_def)
next
  case (Cons a outs)
  then show ?case by (cases texts) (auto simp: staged_def list_all_iff sorted_append)
qed


lemma system_stage_facts:
  assumes "system_stage E c tok m d w = (m', w')"
  shows "stdout w' = stdout w \<and>
     (if is_prompt_tuning (peft_recipe c) \<and> system_tuning c
      then \<exists>st r. trace w' = trace w @ [Ev_fit_system_template_tokens d (model_template_recipe c) tok,
                      Ev_add_proxy m st tok] \<and> m' = fst (SystemTuning_add_proxy E m st tok r)
      else trace w' = trace w \<and> m' = m)"
proof (cases "is_prompt_tuning (peft_recipe c) \<and> system_tuning c")
  case True
  let ?st = "fst (fit_system_template_tokens E d (model_template_recipe c) tok (rng w))"
  let ?r = "snd (fit_system_template_tokens E d (model_template_recipe c) tok (rng w))"
  from assms True have f: "stdout w' = stdout w"
    "trace w' = trace w @ [Ev_fit_system_template_tokens d (model_template_recipe c) tok,
       Ev_add_proxy m ?st tok]"
    "m' = fst (SystemTuning_add_proxy E m ?st tok ?r)"
    by (auto simp: system_stage_def ext_eq)
  show ?thesis unfolding if_P[OF True]
    by (intro conjI exI[of _ ?st] exI[of _ ?r]) (fact f)+
next
  case False
  with assms show ?thesis by (auto simp: system_stage_def)
qed

lemma generation_stage_calls:
  assumes "generation_stage E tok m w = ((outs, texts), w')"
  shows "\<exists>r1 r2 r3.
     trace w' = trace w @
       [Ev_encode tok test_prompt,
        Ev_to_device (fst (encode E tok test_prompt r1)) (device E m),
        Ev_generate m (fst (to_device E (fst (encode E tok test_prompt r1)) (device E m) r2))
          (the_generation_config E tok)]
       @ print_events tok outs texts \<and>
     outs = fst (generate E m
                   (fst (to_device E (fst (encode E tok test_prompt r1)) (device E m) r2))
                   (the_generation_config E tok) r3) \<and>
     decoded E tok outs texts \<and> stdout w' = stdout w @ map printed texts"
proof -
  obtain ids w1 where 1: "ext (Ev_encode tok test_prompt) (encode E tok test_prompt) w = (ids, w1)"
    by (meson surj_pair)
  obtain input_ids w2 where 2: "ext (Ev_to_device ids (device E m)) (to_device E ids (device E m)) w1 = (input_ids, w2)"
    by (meson surj_pair)
  obtain os w3 where 3: "ext (Ev_generate m input_ids (the_generation_config E tok))
      (generate E m input_ids (the_generation_config E tok)) w2 = (os, w3)"
    by (meson surj_pair)
  obtain ts w4 where 4: "print_outputs E tok os w3 = (ts, w4)"
    by (meson surj_pair)
  from assms have r: "outs = os" "texts = ts" "w' = w4"
    by (simp_all add: generation_stage_def 1 2 3 4)
  have i: "ids = fst (encode E tok test_prompt (rng w))"
    "input_ids = fst (to_device E ids (device E m) (rng w1))"
    using 1 2 by (auto simp: ext_eq)
  have w3: "trace w3 = trace w @ [Ev_encode tok test_prompt, Ev_to_device ids (device E m),
      Ev_generate m input_ids (the_generation_config E tok)]" "stdout w3 = stdout w"
    "os = fst (generate E m input_ids (the_generation_config E tok) (rng w2))"
    using 1 2 3 by (auto simp: ext_eq)
  from print_outputs_facts[OF 4] have p: "trace w4 = trace w3 @ print_events tok os ts"
    "decoded E tok os ts" "stdout w4 = stdout w3 @ map printed ts" by simp_all
  show ?thesis
    apply (rule exI[of _ "rng w"], rule exI[of _ "rng w1"], rule exI[of _ "rng w2"])
    unfolding r i[symmetric] using p w3 by simp
qed

lemma system_stage_calls:
  assumes "system_stage E c tok m d w = (m', w')"
    and "is_prompt_tuning (peft_recipe c) \<and> system_tuning c"
  shows "\<exists>r1 r2.
     trace w' = trace w @
       [Ev_fit_system_template_tokens d (model_template_recipe c) tok,
        Ev_add_proxy m (fst (fit_system_template_tokens E d (model_template_recipe c) tok r1)) tok] \<and>
     m' = fst (SystemTuning_add_proxy E m
                 (fst (fit_system_template_tokens E d (model_template_recipe c) tok r1)) tok r2)"
proof -
  let ?st = "fst (fit_system_template_tokens E d (model_template_recipe c) tok (rng w))"
  let ?r = "snd (fit_system_template_tokens E d (model_template_recipe c) tok (rng w))"
  from assms have f:
    "trace w' = trace w @ [Ev_fit_system_template_tokens d (model_template_recipe c) tok,
       Ev_add_proxy m ?st tok]"
    "m' = fst (SystemTuning_add_proxy E m ?st tok ?r)"
    by (auto simp: system_stage_def ext_eq)
  show ?thesis
    by (intro conjI exI[of _ "rng w"] exI[of _ ?r]) (fact f)+
qed

lemma filter_none: "\<not> list_ex P xs \<Longrightarrow> filter P xs = []"
  by (induction xs) auto

lemma driver_cases:
  obtains (abort) pc w1 tok qc m w2 err w3 where
      "peft_stage E c w = (pc, w1)" "model_stage E c pc w1 = ((tok, qc, m), w2)"
      "dataset_stage E c tok w2 = (Inl err, w3)" "driver E c w = (Inl err, w3)"
  | (complete) pc w1 tok qc m w2 sup dt dv w3 m' w4 outs texts w5 where
      "peft_stage E c w = (pc, w1)" "model_stage E c pc w1 = ((tok, qc, m), w2)"
      "dataset_stage E c tok w2 = (Inr (sup, dt, dv), w3)"
      "system_stage E c tok m dt w3 = (m', w4)"
      "generation_stage E tok m' w4 = ((outs, texts), w5)"
      "driver E c w = (Inr \<lparr>l_peft_config = pc, l_tokenizer = tok, l_quantization_config = qc,
          l_base_model = m, l_dataset_support = sup, l_dataset_train = dt, l_dataset_val = dv,
          l_model = m', l_outputs = outs, l_texts = texts\<rparr>, w5)"
proof -
  obtain pc w1 where 1: "peft_stage E c w = (pc, w1)" by (meson surj_pair)
  obtain tok qc m w2 where 2: "model_stage E c pc w1 = ((tok, qc, m), w2)" by (metis surj_pair)
  obtain res w3 where 3: "dataset_stage E c tok w2 = (res, w3)" by (meson surj_pair)
  show ?thesis
  proof (cases res)
    case (Inl err)
    with 1 2 3 show ?thesis by (intro abort[of pc w1 tok qc m w2 err w3]) (simp_all add: driver_def)
  next
    case (Inr t)
    obtain sup dt dv where t: "t = (sup, dt, dv)" by (metis surj_pair)
    obtain m' w4 where 4: "system_stage E c tok m dt w3 = (m', w4)" by (meson surj_pair)
    obtain outs texts w5 where 5: "generation_stage E tok m' w4 = ((outs, texts), w5)" by (metis surj_pair)
    with 1 2 3 4 Inr t show ?thesis
      by (intro complete[of pc w1 tok qc m w2 sup dt dv w3 m' w4 outs texts w5]) (simp_all add: driver_def)
  qed
qed

lemma driver_trace:
  "\<exists>evs. trace (snd (driver E c w)) = trace w @ evs \<and> staged c 2 16 evs"
proof (cases rule: driver_cases[where E=E and c=c and w=w])
  case (abort pc w1 tok qc m w2 err w3)
  have e1: "extends c 2 4 w w1" using peft_stage_ext[of c w E] abort(1) by simp
  have e2: "extends c 5 7 w1 w2" using model_stage_ext[of c w1 E pc] abort(2) by simp
  have e3: "extends c 8 10 w2 w3" using dataset_stage_ext[of c w2 E tok] abort(3) by simp
  have e12: "extends c 2 7 w w2"
    by (rule extends_trans[where m=4 and m'=5, OF e1 e2]) simp_all
  have e13: "extends c 2 10 w w3"
    by (rule extends_trans[where m=7 and m'=8, OF e12 e3]) simp_all
  have "extends c 2 16 w w3"
    by (rule extends_trans[where m=10 and m'=10, OF e13 extends_refl]) simp_all
  then show ?thesis using abort(4) by (auto simp: extends_def)
next
  case (complete pc w1 tok qc m w2 sup dt dv w3 m' w4 outs texts w5)
  have e1: "extends c 2 4 w w1" using peft_stage_ext[of c w E] complete(1) by simp
  have e2: "extends c 5 7 w1 w2" using model_stage_ext[of c w1 E pc] complete(2) by simp
  have e3: "extends c 8 10 w2 w3" using dataset_stage_ext[of c w2 E tok] complete(3) by simp
  have e4: "extends c 11 12 w3 w4"
    using system_stage_ext[of c w3 E tok m dt] complete(4) by simp
  have e12: "extends c 2 7 w w2"
    by (rule extends_trans[where m=4 and m'=5, OF e1 e2]) simp_all
  have e13: "extends c 2 10 w w3"
    by (rule extends_trans[where m=7 and m'=8, OF e12 e3]) simp_all
  have e14: "extends c 2 12 w w4"
    by (rule extends_trans[where m=10 and m'=11, OF e13 e4]) simp_all
  then obtain evs0 where evs0: "trace w4 = trace w @ evs0" "staged c 2 12 evs0"
    by (auto simp: extends_def)
  from generation_stage_facts[OF complete(5)] obtain ids input_ids where
    g: "trace w5 = trace w4 @ [Ev_encode tok test_prompt, Ev_to_device ids (device E m'),
          Ev_generate m' input_ids (the_generation_config E tok)] @ print_events tok outs texts"
    by auto
  have g2: "staged c 13 16 ([Ev_encode tok test_prompt, Ev_to_device ids (device E m'),
          Ev_generate m' input_ids (the_generation_config E tok)] @ print_events tok outs texts)"
    by (rule staged_append[where m=15 and m'=16, OF _ print_events_staged])
       (simp_all add: staged_def)
  have "staged c 2 16 (evs0 @ [Ev_encode tok test_prompt, Ev_to_device ids (device E m'),
          Ev_generate m' input_ids (the_generation_config E tok)] @ print_events tok outs texts)"
    by (rule staged_append[where m=12 and m'=13, OF evs0(2) g2]) simp_all
  then show ?thesis using complete(6) g evs0 by auto
qed

lemma main_eq:
  "main E r0 = driver E (parsed_config E)
     \<lparr>trace = [Ev_set_seed 42, Ev_get_config_from_argparser],
      rng = snd (get_config_from_argparser E (set_seed E 42)), stdout = []\<rparr>"
  by (simp add: main_def ext_eq seed_call_def parsed_config_def)

lemma main_trace:
  "\<exists>evs. trace (snd (main E r0)) = Ev_set_seed 42 # Ev_get_config_from_argparser # evs \<and>
     staged (parsed_config E) 2 16 evs"
  using driver_trace[of E "parsed_config E"
      "\<lparr>trace = [Ev_set_seed 42, Ev_get_config_from_argparser],
        rng = snd (get_config_from_argparser E (set_seed E 42)), stdout = []\<rparr>"]
  by (simp add: main_eq)


lemma stage_of_kinds:
  "is_parse e \<Longrightarrow> stage_of e = 1"
  "is_PeftDispatcher e \<Longrightarrow> stage_of e = 2"
  "is_TokenizerDispatcher e \<Longrightarrow> stage_of e = 5"
  "is_QuantizationDispatcher e \<Longrightarrow> stage_of e = 6"
  "is_ModelDispatcher e \<Longrightarrow> stage_of e = 7"
  "is_DatasetDispatcher e \<Longrightarrow> stage_of e = 3 \<or> stage_of e = 8"
  "is_alignment e \<Longrightarrow> stage_of e = 11 \<or> stage_of e = 12"
  "is_generate e \<Longrightarrow> stage_of e = 15"
  by (cases e; simp add: is_parse_def is_PeftDispatcher_def is_TokenizerDispatcher_def
      is_QuantizationDispatcher_def is_ModelDispatcher_def is_DatasetDispatcher_def
      is_alignment_def is_generate_def)+

lemma peft_stage_events:
  assumes "peft_stage E c w = (pc, w1)"
  shows "\<exists>pe. trace w1 = trace w @ pe \<and> staged c 2 4 pe \<and> stdout w1 = stdout w \<and>
           (peft_recipe c = None \<longrightarrow> pe = [] \<and> pc = None) \<and>
           (\<forall>pr. peft_recipe c = Some pr \<longrightarrow> Ev_PeftDispatcher pr \<in> set pe)"
  using assms peft_stage_ext[of c w E]
  by (auto simp: extends_def peft_stage_def ext_eq split: if_splits)

lemma model_stage_events:
  assumes "model_stage E c pc w = ((tok, qc, m), w')"
  shows "\<exists>qe r1 r2. trace w' = trace w @ Ev_TokenizerDispatcher (tokenizer_recipe c) (model_name c)
             # qe @ [Ev_ModelDispatcher (model_recipe c) (model_name c) qc pc] \<and>
           stdout w' = stdout w \<and>
           tok = fst (TokenizerDispatcher_get_tokenizer E (tokenizer_recipe c) (model_name c) (rng w)) \<and>
           r1 = snd (TokenizerDispatcher_get_tokenizer E (tokenizer_recipe c) (model_name c) (rng w)) \<and>
           (case quantization_recipe c of
              None \<Rightarrow> qe = [] \<and> qc = None \<and> r2 = r1
            | Some qr \<Rightarrow> qe = [Ev_QuantizationDispatcher qr] \<and>
                qc = Some (fst (QuantizationDispatcher_get_quantization_config E qr r1)) \<and>
                r2 = snd (QuantizationDispatcher_get_quantization_config E qr r1)) \<and>
           m = fst (ModelDispatcher_get_model E (model_recipe c) (model_name c) qc pc r2)"
  using assms
  by (auto simp: model_stage_def quantization_stage_def ext_eq split: option.splits)

lemma driver_rest:
  assumes "peft_stage E c w = (pc, w1)" "model_stage E c pc w1 = ((tok, qc, m), w2)"
  shows "\<exists>post. trace (snd (driver E c w)) = trace w2 @ post \<and> staged c 8 16 post"
proof (cases rule: driver_cases[where E=E and c=c and w=w])
  case (abort pc' w1' tok' qc' m' w2' err w3)
  with assms have eq: "tok' = tok" "w2' = w2" by simp_all
  have "extends c 8 10 w2 w3" using dataset_stage_ext[of c w2 E tok] abort(3) eq by simp
  then have "extends c 8 16 w2 w3"
    by (rule extends_trans[where m=10 and m'=10, OF _ extends_refl]) simp_all
  then show ?thesis using abort(4) by (auto simp: extends_def)
next
  case (complete pc' w1' tok' qc' m0 w2' sup dt dv w3 m' w4 outs texts w5)
  with assms have eq: "tok' = tok" "w2' = w2" "m0 = m" by simp_all
  have e3: "extends c 8 10 w2 w3" using dataset_stage_ext[of c w2 E tok] complete(3) eq by simp
  have e4: "extends c 11 12 w3 w4"
    using system_stage_ext[of c w3 E tok' m0 dt] complete(4) by simp
  have "extends c 8 12 w2 w4"
    by (rule extends_trans[where m=10 and m'=11, OF e3 e4]) simp_all
  then obtain evs0 where evs0: "trace w4 = trace w2 @ evs0" "staged c 8 12 evs0"
    by (auto simp: extends_def)
  from generation_stage_facts[OF complete(5)] obtain ids input_ids where
    g: "trace w5 = trace w4 @ [Ev_encode tok' test_prompt, Ev_to_device ids (device E m'),
          Ev_generate m' input_ids (the_generation_config E tok')] @ print_events tok' outs texts"
    by auto
  have g2: "staged c 13 16 ([Ev_encode tok' test_prompt, Ev_to_device ids (device E m'),
          Ev_generate m' input_ids (the_generation_config E tok')] @ print_events tok' outs texts)"
    by (rule staged_append[where m=15 and m'=16, OF _ print_events_staged])
       (simp_all add: staged_def)
  have "staged c 8 16 (evs0 @ [Ev_encode tok' test_prompt, Ev_to_device ids (device E m'),
          Ev_generate m' input_ids (the_generation_config E tok')] @ print_events tok' outs texts)"
    by (rule staged_append[where m=12 and m'=13, OF evs0(2) g2]) simp_all
  then show ?thesis using complete(6) g evs0 by auto
qed

text \<open>The calls of a run up to the construction of the model, and what follows.\<close>

lemma driver_model_call:
  "\<exists>pe qe qc post.
     trace (snd (driver E c w)) =
       trace w @ pe @ Ev_TokenizerDispatcher (tokenizer_recipe c) (model_name c) # qe @
         Ev_ModelDispatcher (model_recipe c) (model_name c) qc (fst (peft_stage E c w)) # post \<and>
     staged c 2 4 pe \<and> staged c 8 16 post \<and>
     (peft_recipe c = None \<longrightarrow> pe = [] \<and> fst (peft_stage E c w) = None) \<and>
     (\<forall>pr. peft_recipe c = Some pr \<longrightarrow> Ev_PeftDispatcher pr \<in> set pe) \<and>
     (case quantization_recipe c of
        None \<Rightarrow> qe = [] \<and> qc = None
      | Some qr \<Rightarrow> qe = [Ev_QuantizationDispatcher qr] \<and> qc \<noteq> None)"
proof -
  obtain pc w1 where 1: "peft_stage E c w = (pc, w1)" by (meson surj_pair)
  obtain tok qc m w2 where 2: "model_stage E c pc w1 = ((tok, qc, m), w2)" by (metis surj_pair)
  from peft_stage_events[OF 1] obtain pe where
    pe: "trace w1 = trace w @ pe" "staged c 2 4 pe" "peft_recipe c = None \<longrightarrow> pe = [] \<and> pc = None"
      "\<forall>pr. peft_recipe c = Some pr \<longrightarrow> Ev_PeftDispatcher pr \<in> set pe"
    by auto
  from model_stage_events[OF 2] obtain qe where
    qe: "trace w2 = trace w1 @ Ev_TokenizerDispatcher (tokenizer_recipe c) (model_name c)
             # qe @ [Ev_ModelDispatcher (model_recipe c) (model_name c) qc pc]"
        "case quantization_recipe c of
              None \<Rightarrow> qe = [] \<and> qc = None
            | Some qr \<Rightarrow> qe = [Ev_QuantizationDispatcher qr] \<and> qc \<noteq> None"
    by (auto split: option.splits)
  from driver_rest[OF 1 2] obtain post where
    post: "trace (snd (driver E c w)) = trace w2 @ post" "staged c 8 16 post" by auto
  show ?thesis
    apply (rule exI[of _ pe], rule exI[of _ qe], rule exI[of _ qc], rule exI[of _ post])
    using pe qe post 1 by simp
qed



lemma sorted_all_before:
  "sorted (map f tr) \<Longrightarrow> (\<forall>e. P e \<longrightarrow> f e < n) \<Longrightarrow> (\<forall>e. Q e \<longrightarrow> n \<le> f e)
    \<Longrightarrow> all_before P Q tr"
proof (induction tr)
  case Nil
  then show ?case by simp
next
  case (Cons e es)
  have "Q e \<Longrightarrow> \<not> list_ex P es"
  proof
    assume q: "Q e" and "list_ex P es"
    then obtain x where x: "x \<in> set es" "P x" by (auto simp: list_ex_iff)
    with Cons.prems have "f e \<le> f x" "f x < n" "n \<le> f e" using q by auto
    then show False by simp
  qed
  with Cons show ?case by simp
qed

lemma is_dispatch_stage: "is_dispatch e \<Longrightarrow> 2 \<le> stage_of e"
  unfolding is_dispatch_def by (auto dest: stage_of_kinds)

lemma main_sorted: "sorted (map stage_of (trace (snd (main E r0))))"
proof -
  from main_trace[of E r0] obtain evs where
    evs: "trace (snd (main E r0)) = Ev_set_seed 42 # Ev_get_config_from_argparser # evs"
      "staged (parsed_config E) 2 16 evs" by auto
  from evs(2) have "sorted (map stage_of evs)" "\<forall>e\<in>set evs. 2 \<le> stage_of e"
    by (auto simp: staged_def list_all_iff)
  then show ?thesis unfolding evs(1) by fastforce
qed


lemma dataset_tail_value:
  assumes "dataset_tail E c s t v w = (Inr (s', t', v'), w')"
  shows "s' = s \<and> v' = v \<and>
     (training_size c = None \<or> training_size c = Some 0 \<longrightarrow> t' = t) \<and>
     (\<forall>n. training_size c = Some n \<and> n \<noteq> 0 \<longrightarrow>
        fst (select E t [0..n - 1] (rng w)) = Some t')"
  using assms
  by (auto simp: dataset_tail_def first_prompts_def ext_eq truthy_def range_def
      split: option.splits if_splits prod.splits)

lemma dataset_stage_fallback:
  assumes "DatasetDispatcher_get_support_and_tuning_dataset E (dataset_recipe c)
             (dataset_name c) (kwargs_train E c tok) (rng w) = (Some (supp, dt), r1)"
    and "DatasetDispatcher_get_support_and_tuning_dataset E (dataset_recipe c)
             (dataset_name c) (kwargs_validation E c tok supp) r1 = (None, r2)"
  shows "validation_split_size c = None \<Longrightarrow>
      dataset_stage E c tok w =
        (Inl (AssertionError assert_message),
         w\<lparr>trace := trace w @
              [Ev_get_support_and_tuning_dataset (dataset_recipe c) (dataset_name c)
                 (kwargs_train E c tok),
               Ev_get_support_and_tuning_dataset (dataset_recipe c) (dataset_name c)
                 (kwargs_validation E c tok supp)],
           rng := r2\<rparr>)"
    and "validation_split_size c = Some sz \<Longrightarrow>
      train_test_split E dt sz r2 = ((nt, nv), r3) \<Longrightarrow>
      dataset_stage E c tok w =
        dataset_tail E c supp nt nv
          (w\<lparr>trace := trace w @
              [Ev_get_support_and_tuning_dataset (dataset_recipe c) (dataset_name c)
                 (kwargs_train E c tok),
               Ev_get_support_and_tuning_dataset (dataset_recipe c) (dataset_name c)
                 (kwargs_validation E c tok supp),
               Ev_train_test_split dt sz],
             rng := r3\<rparr>)"
  using assms by (simp_all add: dataset_stage_def ext_eq)

lemma driver_keeps_dataset_calls:
  assumes "peft_stage E c w = (pc, w1)" "model_stage E c pc w1 = ((tok, qc, m), w2)"
  shows "set (trace (snd (dataset_stage E c tok w2))) \<subseteq> set (trace (snd (driver E c w)))"
proof (cases rule: driver_cases[where E=E and c=c and w=w])
  case (abort pc' w1' tok' qc' m' w2' err w3)
  with assms show ?thesis by simp
next
  case (complete pc' w1' tok' qc' m0 w2' supp dt dv w3 m' w4 outs texts w5)
  with assms have eq: "tok' = tok" "w2' = w2" by simp_all
  have "extends c 11 12 w3 w4"
    using system_stage_ext[of c w3 E tok' m0 dt] complete(4) by simp
  then obtain se where se: "trace w4 = trace w3 @ se" by (auto simp: extends_def)
  from generation_stage_facts[OF complete(5)] obtain ge where
    ge: "trace w5 = trace w4 @ ge" by auto
  from complete(3,6) eq se ge show ?thesis by auto
qed

lemma dispatched_events:
  assumes "\<forall>e\<in>set evs. dispatched_from c e"
  shows "\<forall>tr mn. Ev_TokenizerDispatcher tr mn \<in> set evs \<longrightarrow>
           tr = tokenizer_recipe c \<and> mn = model_name c"
    and "\<forall>mr mn qc pc. Ev_ModelDispatcher mr mn qc pc \<in> set evs \<longrightarrow>
           mr = model_recipe c \<and> mn = model_name c"
    and "\<forall>qr. Ev_QuantizationDispatcher qr \<in> set evs \<longrightarrow> quantization_recipe c = Some qr"
    and "\<forall>pr. Ev_PeftDispatcher pr \<in> set evs \<longrightarrow> peft_recipe c = Some pr"
    and "\<forall>dr dn kw. Ev_get_support_and_tuning_dataset dr dn kw \<in> set evs \<longrightarrow>
           dr = dataset_recipe c \<and> dn = dataset_name c"
    and "\<forall>dr dn sp eos lab. Ev_get_tuning_dataset dr dn sp eos lab \<in> set evs \<longrightarrow>
           dr = dataset_recipe c \<and> dn = dataset_name c"
  using assms by fastforce+

lemma staged_filter_none:
  assumes "staged c lo hi xs" and "\<And>e. P e \<Longrightarrow> stage_of e < lo \<or> hi < stage_of e"
  shows "filter P xs = []"
  using assms by (fastforce simp: staged_def list_all_iff filter_empty_conv)

lemma peft_stage_value:
  assumes "peft_stage E c w = (pc, w1)"
  shows "case peft_recipe c of
           None \<Rightarrow> pc = None
         | Some pr \<Rightarrow>
             pc = Some (fst (PeftDispatcher_get_peft_config E pr (rng w))) \<or>
             (\<exists>txt. pc = Some ((fst (PeftDispatcher_get_peft_config E pr (rng w)))
                                 \<lparr>prompt_tuning_init_text := Some txt\<rparr>))"
  using assms
  by (auto simp: peft_stage_def ext_eq split: option.splits if_splits prod.splits)

lemma dataset_tail_train:
  assumes "dataset_tail E c s t v w = (Inr (s', t', v'), w')"
  shows "s' = s \<and> v' = v \<and> (t' = t \<or> (\<exists>idx r. fst (select E t idx r) = Some t'))"
  using assms
  by (auto simp: dataset_tail_def first_prompts_def ext_eq
      split: option.splits if_splits prod.splits)

lemma dataset_stage_value:
  assumes "dataset_stage E c tok w = (Inr (s, t, v), w')"
  shows "\<exists>dt r.
     fst (DatasetDispatcher_get_support_and_tuning_dataset E (dataset_recipe c)
            (dataset_name c)
            (kwargs_train E c tok) (rng w)) = Some (s, dt) \<and>
     ((\<exists>x. fst (DatasetDispatcher_get_support_and_tuning_dataset E (dataset_recipe c)
            (dataset_name c)
            (kwargs_validation E c tok s) r) = Some (x, v)) \<and>
        (t = dt \<or> (\<exists>idx r'. fst (select E dt idx r') = Some t)) \<or>
      fst (DatasetDispatcher_get_support_and_tuning_dataset E (dataset_recipe c)
            (dataset_name c)
            (kwargs_validation E c tok s) r) = None \<and>
        (\<exists>sz r'. validation_split_size c = Some sz \<and>
           v = snd (fst (train_test_split E dt sz r')) \<and>
           (t = fst (fst (train_test_split E dt sz r')) \<or>
            (\<exists>idx r''. fst (select E (fst (fst (train_test_split E dt sz r'))) idx r'')
                = Some t))))"
proof -
  obtain res1 w1 where 1: "ext (Ev_get_support_and_tuning_dataset (dataset_recipe c) (dataset_name c)
                  (kwargs_train E c tok))
               (DatasetDispatcher_get_support_and_tuning_dataset E (dataset_recipe c)
                  (dataset_name c) (kwargs_train E c tok)) w = (res1, w1)"
    by (meson surj_pair)
  with assms obtain s0 dt where r1: "res1 = Some (s0, dt)"
    by (cases res1) (auto simp: dataset_stage_def)
  obtain res2 w2 where 2: "ext (Ev_get_support_and_tuning_dataset (dataset_recipe c)
                       (dataset_name c) (kwargs_validation E c tok s0))
                    (DatasetDispatcher_get_support_and_tuning_dataset E (dataset_recipe c)
                       (dataset_name c) (kwargs_validation E c tok s0)) w1 = (res2, w2)"
    by (meson surj_pair)
  from 1 r1 have f1: "fst (DatasetDispatcher_get_support_and_tuning_dataset E (dataset_recipe c)
            (dataset_name c)
            (kwargs_train E c tok) (rng w)) = Some (s0, dt)"
    by (auto simp: ext_eq)
  from 2 have f2: "fst (DatasetDispatcher_get_support_and_tuning_dataset E (dataset_recipe c)
            (dataset_name c)
            (kwargs_validation E c tok s0) (rng w1)) = res2"
    by (auto simp: ext_eq)
  show ?thesis
  proof (cases res2)
    case (Some p)
    obtain x dv where p: "p = (x, dv)" by (meson surj_pair)
    from assms 1 r1 2 Some p have "dataset_tail E c s0 dt dv w2 = (Inr (s, t, v), w')"
      by (simp add: dataset_stage_def)
    from dataset_tail_train[OF this] f1 f2 Some p show ?thesis
      by (intro exI[of _ dt] exI[of _ "rng w1"]) auto
  next
    case None
    with assms 1 r1 2 obtain sz where sz: "validation_split_size c = Some sz"
      by (cases "validation_split_size c") (auto simp: dataset_stage_def)
    obtain nt nv w3 where 3: "ext (Ev_train_test_split dt sz) (train_test_split E dt sz) w2
        = ((nt, nv), w3)" by (metis surj_pair)
    then have f3: "nt = fst (fst (train_test_split E dt sz (rng w2)))"
      "nv = snd (fst (train_test_split E dt sz (rng w2)))"
      by (auto simp: ext_eq)
    from assms 1 r1 2 None sz 3 have "dataset_tail E c s0 nt nv w3 = (Inr (s, t, v), w')"
      by (simp add: dataset_stage_def)
    from dataset_tail_train[OF this] have e: "s = s0" "v = nv"
      "t = nt \<or> (\<exists>idx r. fst (select E nt idx r) = Some t)" by auto
    show ?thesis
      apply (rule exI[of _ dt], rule exI[of _ "rng w1"])
      apply (rule conjI)
      using f1 e(1) apply simp
      apply (rule disjI2)
      apply (rule conjI)
      using f2 None e(1) apply simp
      apply (rule exI[of _ sz], rule exI[of _ "rng w2"])
      using sz e f3 apply simp
      done
  qed
qed

subsection \<open>Two runs of the small environment\<close>

lemmas run_defs = main_eq parsed_config_def driver_def peft_stage_def model_stage_def
  quantization_stage_def dataset_stage_def dataset_tail_def first_prompts_def system_stage_def
  generation_stage_def ext_eq kwargs_train_def kwargs_validation_def is_prompt_tuning_def
  truthy_def the_generation_config_def

lemma demo_sel:
  "set_seed (demo_env b cfg) = (\<lambda>seed. nat seed)"
  "get_config_from_argparser (demo_env b cfg) = (\<lambda>r. (cfg, r))"
  "PeftDispatcher_get_peft_config (demo_env b cfg) = (\<lambda>pr r.
         (\<lparr>num_virtual_tokens = 2, prompt_tuning_init_text = None,
           peft_config_rest = peft_recipe_rest pr\<rparr>, r))"
  "DatasetDispatcher_get_tuning_dataset (demo_env b cfg) = (\<lambda>recipe name split eos labels r. (''raw'', r))"
  "most_common_words (demo_env b cfg) = (\<lambda>words n r. (take (nat n) words, r))"
  "TokenizerDispatcher_get_tokenizer (demo_env b cfg) = (\<lambda>recipe name r. (''tokenizer'', r))"
  "QuantizationDispatcher_get_quantization_config (demo_env b cfg) = (\<lambda>recipe r. (''bnb'', r))"
  "ModelDispatcher_get_model (demo_env b cfg) = (\<lambda>recipe name qc pc r. (''model'', Suc r))"
  "DatasetDispatcher_get_support_and_tuning_dataset (demo_env b cfg) = (\<lambda>recipe name kw r.
         (if kw_split kw = ''validation'' \<and> \<not> b then None
          else Some (''support'', kw_split kw), r))"
  "train_test_split (demo_env b cfg) = (\<lambda>d test_size r. ((''part1'', ''part2''), Suc r))"
  "select (demo_env b cfg) = (\<lambda>d indices r. (Some ''selected'', r))"
  "fit_system_template_tokens (demo_env b cfg) = (\<lambda>d recipe tokenizer r. (''template'', r))"
  "SystemTuning_add_proxy (demo_env b cfg) = (\<lambda>model template tokenizer r. (''proxy'', r))"
  "encode (demo_env b cfg) = (\<lambda>tokenizer s r. (''ids'', r))"
  "to_device (demo_env b cfg) = (\<lambda>x d r. (x, r))"
  "generate (demo_env b cfg) = (\<lambda>model ids gc r.
         (if num_return_sequences gc = 4 then [''o1'', ''o2'', ''o3'', ''o4'']
          else replicate (nat (num_return_sequences gc)) ''o'', r + 4))"
  "decode (demo_env b cfg) = (\<lambda>tokenizer output skip r. (''fact '' @ output, r))"
  "text_column (demo_env b cfg) = (\<lambda>d. [''The cat'', ''the dog''])"
  "eos_token (demo_env b cfg) = (\<lambda>tokenizer. Some ''</s>'')"
  "eos_token_id (demo_env b cfg) = (\<lambda>tokenizer. Some 2)"
  "device (demo_env b cfg) = (\<lambda>model. ''cuda'')"
  "str_lower (demo_env b cfg) = lower"
  by (simp_all add: demo_env_def)

lemma demo_lower: "lower ''The cat the dog'' = ''the cat the dog''"
  by code_simp

lemma demo_words: "init_words (demo_env b cfg) d = [''the'', ''cat'', ''the'', ''dog'']"
  by (simp add: init_words_def demo_sel demo_lower)

lemma demo_main:
  "main (demo_env True demo_config) r0 =
     (Inr demo_locals,
      \<lparr>trace = demo_trace, rng = 47,
       stdout = map printed [''fact o1'', ''fact o2'', ''fact o3'', ''fact o4'']\<rparr>)"
  by (simp add: run_defs demo_sel demo_words demo_config_def demo_locals_def demo_trace_def)

lemma demo_abort:
  "main (demo_env False noval_config) r0 =
     (Inl (AssertionError assert_message),
      \<lparr>trace = take 10 demo_trace, rng = 43, stdout = []\<rparr>)"
  by (simp add: run_defs demo_sel demo_words demo_config_def noval_config_def demo_trace_def)


section \<open>The claims\<close>

text \<open>
  C6. When the configuration has no PEFT recipe, the run never calls PeftDispatcher and the
  model is constructed with the PEFT config None; when it has no quantization recipe, the run
  never calls QuantizationDispatcher and the model is constructed with the quantization
  config None.
\<close>

theorem C6_absent_recipe_gives_no_config:
  fixes E :: "('o, 'r) env"
  shows "(peft_recipe (parsed_config E) = None \<longrightarrow>
       \<not> list_ex is_PeftDispatcher (trace (snd (main E r0))) \<and>
       (\<exists>qc. Ev_ModelDispatcher (model_recipe (parsed_config E)) (model_name (parsed_config E))
               qc None \<in> set (trace (snd (main E r0)))) \<and>
       (\<forall>mr mn qc pc. Ev_ModelDispatcher mr mn qc pc \<in> set (trace (snd (main E r0)))
           \<longrightarrow> pc = None)) \<and>
   (quantization_recipe (parsed_config E) = None \<longrightarrow>
       \<not> list_ex is_QuantizationDispatcher (trace (snd (main E r0))) \<and>
       (\<exists>pc. Ev_ModelDispatcher (model_recipe (parsed_config E)) (model_name (parsed_config E))
               None pc \<in> set (trace (snd (main E r0)))) \<and>
       (\<forall>mr mn qc pc. Ev_ModelDispatcher mr mn qc pc \<in> set (trace (snd (main E r0)))
           \<longrightarrow> qc = None))"
proof -
  define c where "c = parsed_config E"
  define w where "w = (\<lparr>trace = [Ev_set_seed 42, Ev_get_config_from_argparser],
      rng = snd (get_config_from_argparser E (set_seed E 42)), stdout = []\<rparr> :: ('o, 'r) world)"
  from driver_model_call[of E c w] obtain pe qe qc post where
    tr: "trace (snd (main E r0)) =
       [Ev_set_seed 42, Ev_get_config_from_argparser] @ pe @
         Ev_TokenizerDispatcher (tokenizer_recipe c) (model_name c) # qe @
         Ev_ModelDispatcher (model_recipe c) (model_name c) qc (fst (peft_stage E c w)) # post"
    and pe: "staged c 2 4 pe" and post: "staged c 8 16 post"
    and p: "peft_recipe c = None \<longrightarrow> pe = [] \<and> fst (peft_stage E c w) = None"
    and q: "case quantization_recipe c of
        None \<Rightarrow> qe = [] \<and> qc = None
      | Some qr \<Rightarrow> qe = [Ev_QuantizationDispatcher qr] \<and> qc \<noteq> None"
    unfolding main_eq c_def w_def by auto
  have pe_st: "\<forall>e\<in>set pe. stage_of e \<le> 4" and post_st: "\<forall>e\<in>set post. 8 \<le> stage_of e"
    using pe post by (auto simp: staged_def list_all_iff)
  have qe_st: "\<forall>e\<in>set qe. stage_of e = 6"
    using q by (auto split: option.splits)
  have no_model: "\<And>mr mn a b. Ev_ModelDispatcher mr mn a b \<notin> set pe \<and>
      Ev_ModelDispatcher mr mn a b \<notin> set qe \<and> Ev_ModelDispatcher mr mn a b \<notin> set post"
    using pe_st qe_st post_st by fastforce
  have no_quant_post: "\<not> list_ex is_QuantizationDispatcher post" "\<not> list_ex is_QuantizationDispatcher pe"
    "\<not> list_ex is_PeftDispatcher post" "\<not> list_ex is_PeftDispatcher qe"
    using pe_st qe_st post_st by (fastforce simp: list_ex_iff dest: stage_of_kinds)+
  have kinds: "\<not> is_PeftDispatcher (Ev_set_seed 42 :: 'o event)"
    "\<not> is_PeftDispatcher (Ev_get_config_from_argparser :: 'o event)"
    "\<And>a b. \<not> is_PeftDispatcher (Ev_TokenizerDispatcher a b :: 'o event)"
    "\<And>a b x y. \<not> is_PeftDispatcher (Ev_ModelDispatcher a b x y :: 'o event)"
    "\<not> is_QuantizationDispatcher (Ev_set_seed 42 :: 'o event)"
    "\<not> is_QuantizationDispatcher (Ev_get_config_from_argparser :: 'o event)"
    "\<And>a b. \<not> is_QuantizationDispatcher (Ev_TokenizerDispatcher a b :: 'o event)"
    "\<And>a b x y. \<not> is_QuantizationDispatcher (Ev_ModelDispatcher a b x y :: 'o event)"
    by (simp_all add: is_PeftDispatcher_def is_QuantizationDispatcher_def)
  show ?thesis
    unfolding c_def[symmetric] tr
    using p q no_model no_quant_post kinds
    by (auto simp: list_ex_iff split: option.splits)
qed

theorem C6_witness:
  "peft_recipe (parsed_config (demo_env True plain_config)) = None \<and>
   quantization_recipe (parsed_config (demo_env True plain_config)) = None \<and>
   \<not> list_ex is_PeftDispatcher (trace (snd (main (demo_env True plain_config) 0))) \<and>
   \<not> list_ex is_QuantizationDispatcher (trace (snd (main (demo_env True plain_config) 0))) \<and>
   Ev_ModelDispatcher ''mod'' ''llama'' None None
     \<in> set (trace (snd (main (demo_env True plain_config) 0)))"
proof -
  have h: "peft_recipe (parsed_config (demo_env True plain_config)) = None"
    "quantization_recipe (parsed_config (demo_env True plain_config)) = None"
    "model_recipe (parsed_config (demo_env True plain_config)) = ''mod''"
    "model_name (parsed_config (demo_env True plain_config)) = ''llama''"
    by (simp_all add: parsed_config_def demo_env_def plain_config_def demo_config_def)
  from C6_absent_recipe_gives_no_config[of "demo_env True plain_config" 0] h
  show ?thesis by auto
qed

text \<open>
  C4. In every run the calls occur in the order of the pipeline: the trace is sorted by
  step. The configuration is parsed, and no dispatcher is called before that; the tokenizer
  dispatcher and, when their recipes are configured, the quantization and PEFT dispatchers
  are called, and none of them after the construction of the model; the model is
  constructed, and never after a generation.
\<close>

theorem C4_pipeline_order:
  fixes E :: "('o, 'r) env"
  shows "sorted (map stage_of (trace (snd (main E r0)))) \<and>
     list_ex is_parse (trace (snd (main E r0))) \<and>
     all_before is_parse is_dispatch (trace (snd (main E r0))) \<and>
     list_ex is_TokenizerDispatcher (trace (snd (main E r0))) \<and>
     (quantization_recipe (parsed_config E) \<noteq> None \<longrightarrow>
        list_ex is_QuantizationDispatcher (trace (snd (main E r0)))) \<and>
     (peft_recipe (parsed_config E) \<noteq> None \<longrightarrow>
        list_ex is_PeftDispatcher (trace (snd (main E r0)))) \<and>
     all_before is_TokenizerDispatcher is_ModelDispatcher (trace (snd (main E r0))) \<and>
     all_before is_QuantizationDispatcher is_ModelDispatcher (trace (snd (main E r0))) \<and>
     all_before is_PeftDispatcher is_ModelDispatcher (trace (snd (main E r0))) \<and>
     list_ex is_ModelDispatcher (trace (snd (main E r0))) \<and>
     all_before is_ModelDispatcher is_generate (trace (snd (main E r0)))"
proof -
  define c where "c = parsed_config E"
  define w where "w = (\<lparr>trace = [Ev_set_seed 42, Ev_get_config_from_argparser],
      rng = snd (get_config_from_argparser E (set_seed E 42)), stdout = []\<rparr> :: ('o, 'r) world)"
  define tr where "tr = trace (snd (main E r0))"
  have s: "sorted (map stage_of tr)" unfolding tr_def by (rule main_sorted)
  from driver_model_call[of E c w] obtain pe qe qc post where
    t: "tr = [Ev_set_seed 42, Ev_get_config_from_argparser] @ pe @
         Ev_TokenizerDispatcher (tokenizer_recipe c) (model_name c) # qe @
         Ev_ModelDispatcher (model_recipe c) (model_name c) qc (fst (peft_stage E c w)) # post"
    and p: "\<forall>pr. peft_recipe c = Some pr \<longrightarrow> Ev_PeftDispatcher pr \<in> set pe"
    and q: "case quantization_recipe c of
        None \<Rightarrow> qe = [] \<and> qc = None
      | Some qr \<Rightarrow> qe = [Ev_QuantizationDispatcher qr] \<and> qc \<noteq> None"
    unfolding main_eq c_def w_def tr_def by auto
  have 1: "list_ex is_parse tr" "list_ex is_TokenizerDispatcher tr" "list_ex is_ModelDispatcher tr"
    unfolding t by (simp_all add: is_parse_def is_TokenizerDispatcher_def is_ModelDispatcher_def)
  have 2: "quantization_recipe c \<noteq> None \<longrightarrow> list_ex is_QuantizationDispatcher tr"
    using q unfolding t by (auto simp: is_QuantizationDispatcher_def split: option.splits)
  have 3: "peft_recipe c \<noteq> None \<longrightarrow> list_ex is_PeftDispatcher tr"
  proof
    assume "peft_recipe c \<noteq> None"
    then obtain pr where "peft_recipe c = Some pr" by auto
    with p have "Ev_PeftDispatcher pr \<in> set tr" unfolding t by simp
    moreover have "is_PeftDispatcher (Ev_PeftDispatcher pr)" by (simp add: is_PeftDispatcher_def)
    ultimately show "list_ex is_PeftDispatcher tr" unfolding list_ex_iff by blast
  qed
  have 4: "all_before is_parse is_dispatch tr"
    by (rule sorted_all_before[OF s, where n=2]) (auto dest: stage_of_kinds is_dispatch_stage)
  have 5: "all_before is_TokenizerDispatcher is_ModelDispatcher tr"
    "all_before is_QuantizationDispatcher is_ModelDispatcher tr"
    "all_before is_PeftDispatcher is_ModelDispatcher tr"
    by (rule sorted_all_before[OF s, where n=7]; auto dest: stage_of_kinds)+
  have 6: "all_before is_ModelDispatcher is_generate tr"
    by (rule sorted_all_before[OF s, where n=15]) (auto dest: stage_of_kinds)
  show ?thesis
    unfolding tr_def[symmetric] c_def[symmetric] using s 1 2 3 4 5 6 by simp
qed

text \<open>
  C2. A run that ends normally makes exactly one call of generate, after every other call
  but the decoding and the printing: on the model of the run, with the result of encoding
  the fixed test prompt with the tokenizer of the run, moved to the device of the model, and
  with the configuration max_new_tokens 100, num_return_sequences 4, temperature 0.6,
  top_p 0.9, do_sample True and the end-of-sequence token of the tokenizer as padding.
  The outputs of the run are the result of that call. Each output is then decoded with
  skip_special_tokens True and printed, in order: a newline, eleven number signs, a newline,
  a space, the decoded text and a newline; nothing else is printed. When generate returns
  as many sequences as its configuration asks for, four outputs are decoded and printed.
\<close>

theorem C2_generation_sanity_check:
  fixes E :: "('o, 'r) env"
  assumes "fst (main E r0) = Inr L"
  shows "\<exists>pre r1 r2 r3.
     trace (snd (main E r0)) =
       pre @ [Ev_encode (l_tokenizer L)
                ''[INST] This is a test, answer with a fun fact about life: [/INST]'',
              Ev_to_device (fst (encode E (l_tokenizer L)
                   ''[INST] This is a test, answer with a fun fact about life: [/INST]'' r1))
                (device E (l_model L)),
              Ev_generate (l_model L)
                (fst (to_device E (fst (encode E (l_tokenizer L)
                   ''[INST] This is a test, answer with a fun fact about life: [/INST]'' r1))
                   (device E (l_model L)) r2))
                \<lparr>max_new_tokens = 100, num_return_sequences = 4, temperature = 6 / 10,
                 top_p = 9 / 10, do_sample = True,
                 pad_token_id = eos_token_id E (l_tokenizer L)\<rparr>]
           @ concat (map2 (\<lambda>output t. [Ev_decode (l_tokenizer L) output True,
                 Ev_print ([CHR 0x0A] @ ''###########'' @ [CHR 0x0A] @ '' '' @ t @ [CHR 0x0A])])
               (l_outputs L) (l_texts L)) \<and>
     (\<forall>m ids gc. Ev_generate m ids gc \<notin> set pre) \<and>
     (\<forall>s. Ev_print s \<notin> set pre) \<and>
     l_outputs L = fst (generate E (l_model L)
                (fst (to_device E (fst (encode E (l_tokenizer L)
                   ''[INST] This is a test, answer with a fun fact about life: [/INST]'' r1))
                   (device E (l_model L)) r2))
                \<lparr>max_new_tokens = 100, num_return_sequences = 4, temperature = 6 / 10,
                 top_p = 9 / 10, do_sample = True,
                 pad_token_id = eos_token_id E (l_tokenizer L)\<rparr> r3) \<and>
     list_all2 (\<lambda>output t. \<exists>r. t = fst (decode E (l_tokenizer L) output True r))
       (l_outputs L) (l_texts L) \<and>
     stdout (snd (main E r0)) =
       map (\<lambda>t. [CHR 0x0A] @ ''###########'' @ [CHR 0x0A] @ '' '' @ t @ [CHR 0x0A]) (l_texts L) \<and>
     ((\<forall>m ids gc r. length (fst (generate E m ids gc r)) = nat (num_return_sequences gc))
        \<longrightarrow> length (l_outputs L) = 4 \<and> length (l_texts L) = 4 \<and>
            length (stdout (snd (main E r0))) = 4)"
proof -
  define c where "c = parsed_config E"
  define w where "w = (\<lparr>trace = [Ev_set_seed 42, Ev_get_config_from_argparser],
      rng = snd (get_config_from_argparser E (set_seed E 42)), stdout = []\<rparr> :: ('o, 'r) world)"
  have m: "main E r0 = driver E c w" unfolding c_def w_def by (rule main_eq)
  show ?thesis
  proof (cases rule: driver_cases[where E=E and c=c and w=w])
    case (abort pc w1 tok qc m w2 err w3)
    with assms m show ?thesis by simp
  next
    case (complete pc w1 tok qc m0 w2 sup dt dv w3 m' w4 outs texts w5)
    with assms m have L: "l_tokenizer L = tok" "l_model L = m'" "l_outputs L = outs"
      "l_texts L = texts" by auto
    have e1: "extends c 2 4 w w1" using peft_stage_ext[of c w E] complete(1) by simp
    have e2: "extends c 5 7 w1 w2" using model_stage_ext[of c w1 E pc] complete(2) by simp
    have e3: "extends c 8 10 w2 w3" using dataset_stage_ext[of c w2 E tok] complete(3) by simp
    have e4: "extends c 11 12 w3 w4"
      using system_stage_ext[of c w3 E tok m0 dt] complete(4) by simp
    have e12: "extends c 2 7 w w2"
      by (rule extends_trans[where m=4 and m'=5, OF e1 e2]) simp_all
    have e13: "extends c 2 10 w w3"
      by (rule extends_trans[where m=7 and m'=8, OF e12 e3]) simp_all
    have e14: "extends c 2 12 w w4"
      by (rule extends_trans[where m=10 and m'=11, OF e13 e4]) simp_all
    then obtain evs0 where evs0: "trace w4 = trace w @ evs0" "staged c 2 12 evs0"
      "stdout w4 = stdout w" by (auto simp: extends_def)
    have st: "\<forall>e\<in>set (trace w4). stage_of e \<le> 12"
      using evs0 by (auto simp: w_def staged_def list_all_iff)
    have pre1: "\<forall>m ids gc. Ev_generate m ids gc \<notin> set (trace w4)"
      using st by fastforce
    have pre2: "\<forall>s. Ev_print s \<notin> set (trace w4)"
      using st by fastforce
    from generation_stage_calls[OF complete(5)] obtain r1 r2 r3 where
      g: "trace w5 = trace w4 @
           [Ev_encode tok test_prompt,
            Ev_to_device (fst (encode E tok test_prompt r1)) (device E m'),
            Ev_generate m' (fst (to_device E (fst (encode E tok test_prompt r1)) (device E m') r2))
              (the_generation_config E tok)]
           @ print_events tok outs texts"
         "outs = fst (generate E m'
                   (fst (to_device E (fst (encode E tok test_prompt r1)) (device E m') r2))
                   (the_generation_config E tok) r3)"
         "decoded E tok outs texts" "stdout w5 = stdout w4 @ map printed texts"
      by auto
    have w5: "snd (main E r0) = w5" using m complete(6) by simp
    have len: "length texts = length outs"
      using g(3) by (simp add: decoded_def list_all2_lengthD)
    have cnt: "(\<forall>m ids gc r. length (fst (generate E m ids gc r)) = nat (num_return_sequences gc))
        \<longrightarrow> length outs = 4 \<and> length texts = 4 \<and> length (stdout w5) = 4"
    proof
      assume a: "\<forall>m ids gc r. length (fst (generate E m ids gc r)) = nat (num_return_sequences gc)"
      have "length outs = nat (num_return_sequences (the_generation_config E tok))"
        by (subst g(2)) (simp only: a)
      then have "length outs = 4" by (simp add: the_generation_config_def)
      with len g(4) evs0(3) show "length outs = 4 \<and> length texts = 4 \<and> length (stdout w5) = 4"
        by (simp add: w_def)
    qed
    have std: "stdout w5 = map printed texts"
      using g(4) evs0(3) by (simp add: w_def)
    show ?thesis
      apply (rule exI[of _ "trace w4"], rule exI[of _ r1], rule exI[of _ r2], rule exI[of _ r3])
      unfolding w5 L
      apply (intro conjI)
      subgoal using g(1) by (simp add: the_generation_config_def test_prompt_def
            print_events_def printed_def)
      subgoal by (rule pre1)
      subgoal by (rule pre2)
      subgoal using g(2) by (simp add: the_generation_config_def test_prompt_def)
      subgoal using g(3) by (simp add: decoded_def)
      subgoal using std by (simp add: printed_def)
      subgoal by (rule cnt)
      done
  qed
qed

text \<open>
  C3. In a run that reaches the generation, the base model is the result of ModelDispatcher
  for the configured model, and the alignment step is made exactly when a PEFT recipe of
  class PromptTuningConfig is configured and system_tuning is set. When both hold, the
  calls of the step are, once each and in this order, the fitting of the system template on
  the training set with the model template recipe and the tokenizer, and add_proxy on the
  base model, the fitted template and the tokenizer; the model given to the generation is
  the result of add_proxy. Otherwise neither call is made and the model given to the
  generation is the base model itself. When the run ends normally, the tokenizer, the
  configs, the base model, the training set and the model are those of the run.
\<close>

theorem C3_alignment_step:
  fixes E :: "('o, 'r) env"
  assumes "Ev_generate gm gids ggc \<in> set (trace (snd (main E r0)))"
  shows "\<exists>tok qc pc base dt rt ra rb rc.
     tok = fst (TokenizerDispatcher_get_tokenizer E (tokenizer_recipe (parsed_config E))
                  (model_name (parsed_config E)) rt) \<and>
     Ev_ModelDispatcher (model_recipe (parsed_config E)) (model_name (parsed_config E)) qc pc \<in> set (trace (snd (main E r0))) \<and>
     base = fst (ModelDispatcher_get_model E (model_recipe (parsed_config E)) (model_name (parsed_config E)) qc pc ra) \<and>
     (if (\<exists>pr. peft_recipe (parsed_config E) = Some pr \<and> peft_config_obj pr = PromptTuningConfig) \<and>
         system_tuning (parsed_config E)
      then filter is_alignment (trace (snd (main E r0))) =
             [Ev_fit_system_template_tokens dt (model_template_recipe (parsed_config E)) tok,
              Ev_add_proxy base
                (fst (fit_system_template_tokens E dt (model_template_recipe (parsed_config E)) tok rb)) tok] \<and>
           gm = fst (SystemTuning_add_proxy E base
                (fst (fit_system_template_tokens E dt (model_template_recipe (parsed_config E)) tok rb)) tok rc)
      else filter is_alignment (trace (snd (main E r0))) = [] \<and> gm = base) \<and>
     (\<forall>L. fst (main E r0) = Inr L \<longrightarrow>
        l_tokenizer L = tok \<and> l_quantization_config L = qc \<and> l_peft_config L = pc \<and>
        l_base_model L = base \<and> l_dataset_train L = dt \<and> l_model L = gm)"
proof -
  define c where "c = parsed_config E"
  define w where "w = (\<lparr>trace = [Ev_set_seed 42, Ev_get_config_from_argparser],
      rng = snd (get_config_from_argparser E (set_seed E 42)), stdout = []\<rparr> :: ('o, 'r) world)"
  define tr where "tr = trace (snd (main E r0))"
  have m: "main E r0 = driver E c w" unfolding c_def w_def by (rule main_eq)
  have cond: "((\<exists>pr. peft_recipe c = Some pr \<and> peft_config_obj pr = PromptTuningConfig) \<and>
         system_tuning c) = (is_prompt_tuning (peft_recipe c) \<and> system_tuning c)"
    by (auto simp: is_prompt_tuning_def split: option.splits)
  have na: "\<And>e. stage_of e \<le> 10 \<Longrightarrow> \<not> is_alignment e \<and> \<not> is_generate e"
    by (auto dest: stage_of_kinds)
  have a: "Ev_generate gm gids ggc \<in> set tr" using assms by (simp add: tr_def)
  have "\<exists>tok qc pc base dt rt ra rb rc.
     tok = fst (TokenizerDispatcher_get_tokenizer E (tokenizer_recipe c)
                  (model_name c) rt) \<and>
     Ev_ModelDispatcher (model_recipe c) (model_name c) qc pc \<in> set tr \<and>
     base = fst (ModelDispatcher_get_model E (model_recipe c) (model_name c) qc pc ra) \<and>
     (if (\<exists>pr. peft_recipe c = Some pr \<and> peft_config_obj pr = PromptTuningConfig) \<and>
         system_tuning c
      then filter is_alignment tr =
             [Ev_fit_system_template_tokens dt (model_template_recipe c) tok,
              Ev_add_proxy base
                (fst (fit_system_template_tokens E dt (model_template_recipe c) tok rb)) tok] \<and>
           gm = fst (SystemTuning_add_proxy E base
                (fst (fit_system_template_tokens E dt (model_template_recipe c) tok rb)) tok rc)
      else filter is_alignment tr = [] \<and> gm = base) \<and>
     (\<forall>L. fst (main E r0) = Inr L \<longrightarrow>
        l_tokenizer L = tok \<and> l_quantization_config L = qc \<and> l_peft_config L = pc \<and>
        l_base_model L = base \<and> l_dataset_train L = dt \<and> l_model L = gm)"
  proof (cases rule: driver_cases[where E=E and c=c and w=w])
    case (abort pc w1 tok qc m0 w2 err w3)
    have e1: "extends c 2 4 w w1" using peft_stage_ext[of c w E] abort(1) by simp
    have e2: "extends c 5 7 w1 w2" using model_stage_ext[of c w1 E pc] abort(2) by simp
    have e3: "extends c 8 10 w2 w3" using dataset_stage_ext[of c w2 E tok] abort(3) by simp
    have e12: "extends c 2 7 w w2"
      by (rule extends_trans[where m=4 and m'=5, OF e1 e2]) simp_all
    have e13: "extends c 2 10 w w3"
      by (rule extends_trans[where m=7 and m'=8, OF e12 e3]) simp_all
    then have "\<forall>e\<in>set (trace w3). stage_of e \<le> 10"
      by (auto simp: extends_def staged_def list_all_iff w_def)
    then have "\<forall>m ids gc. Ev_generate m ids gc \<in> set (trace w3) \<longrightarrow> False"
      by fastforce
    with a abort(4) m show ?thesis by (simp add: tr_def)
  next
    case (complete pc w1 tok qc m0 w2 sup dt dv w3 m' w4 outs texts w5)
    have e1: "extends c 2 4 w w1" using peft_stage_ext[of c w E] complete(1) by simp
    have e2: "extends c 5 7 w1 w2" using model_stage_ext[of c w1 E pc] complete(2) by simp
    have e3: "extends c 8 10 w2 w3" using dataset_stage_ext[of c w2 E tok] complete(3) by simp
    have e12: "extends c 2 7 w w2"
      by (rule extends_trans[where m=4 and m'=5, OF e1 e2]) simp_all
    have e13: "extends c 2 10 w w3"
      by (rule extends_trans[where m=7 and m'=8, OF e12 e3]) simp_all
    then have w3: "\<forall>e\<in>set (trace w3). stage_of e \<le> 10"
      by (auto simp: extends_def staged_def list_all_iff w_def)
    from model_stage_events[OF complete(2)] obtain ra where
      md: "Ev_ModelDispatcher (model_recipe c) (model_name c) qc pc \<in> set (trace w2)"
          "m0 = fst (ModelDispatcher_get_model E (model_recipe c) (model_name c) qc pc ra)"
          "tok = fst (TokenizerDispatcher_get_tokenizer E (tokenizer_recipe c) (model_name c)
                        (rng w1))"
      by auto
    from e3 md(1) have md3:
      "Ev_ModelDispatcher (model_recipe c) (model_name c) qc pc \<in> set (trace w3)"
      by (auto simp: extends_def)
    from generation_stage_facts[OF complete(5)] obtain ids input_ids where
      g: "trace w5 = trace w4 @ [Ev_encode tok test_prompt, Ev_to_device ids (device E m'),
            Ev_generate m' input_ids (the_generation_config E tok)] @ print_events tok outs texts"
      by auto
    have pr: "\<forall>e\<in>set (print_events tok outs texts). stage_of e = 16"
      using print_events_staged[of c tok outs texts] by (auto simp: staged_def list_all_iff)
    have L: "fst (main E r0) = Inr \<lparr>l_peft_config = pc, l_tokenizer = tok,
          l_quantization_config = qc, l_base_model = m0, l_dataset_support = sup,
          l_dataset_train = dt, l_dataset_val = dv, l_model = m', l_outputs = outs,
          l_texts = texts\<rparr>" and w5: "tr = trace w5"
      using m complete(6) by (simp_all add: tr_def)
    have genm: "\<forall>m ids gc. Ev_generate m ids gc \<in> set (trace w3) \<longrightarrow> False"
      using w3 by fastforce
    have genp: "\<forall>m ids gc. Ev_generate m ids gc \<in> set (print_events tok outs texts) \<longrightarrow> False"
      using pr by fastforce
    have alp: "filter is_alignment (print_events tok outs texts) = []"
      using pr by (intro filter_none) (auto simp: list_ex_iff dest!: stage_of_kinds(7))
    have al3: "filter is_alignment (trace w3) = []"
      using w3 na by (intro filter_none) (auto simp: list_ex_iff)
    show ?thesis
    proof (cases "is_prompt_tuning (peft_recipe c) \<and> system_tuning c")
      case True
      from system_stage_calls[OF complete(4) True] obtain rb rc where
        s: "trace w4 = trace w3 @ [Ev_fit_system_template_tokens dt (model_template_recipe c) tok,
              Ev_add_proxy m0 (fst (fit_system_template_tokens E dt (model_template_recipe c) tok rb)) tok]"
           "m' = fst (SystemTuning_add_proxy E m0
                 (fst (fit_system_template_tokens E dt (model_template_recipe c) tok rb)) tok rc)"
        by auto
      have gm: "gm = m'" using a unfolding w5 g s(1) using genm genp by auto
      have f: "filter is_alignment tr =
          [Ev_fit_system_template_tokens dt (model_template_recipe c) tok,
           Ev_add_proxy m0 (fst (fit_system_template_tokens E dt (model_template_recipe c) tok rb)) tok]"
        unfolding w5 g s(1) using al3 alp by (simp add: is_alignment_def)
      have d: "Ev_ModelDispatcher (model_recipe c) (model_name c) qc pc \<in> set tr"
        unfolding w5 g s(1) using md3 by simp
      show ?thesis
        apply (rule exI[of _ tok], rule exI[of _ qc], rule exI[of _ pc], rule exI[of _ m0],
               rule exI[of _ dt], rule exI[of _ "rng w1"], rule exI[of _ ra],
               rule exI[of _ rb], rule exI[of _ rc])
        unfolding cond
        using True L gm f d md(2,3) s(2) by simp
    next
      case False
      with system_stage_facts[OF complete(4)] have
        s: "trace w4 = trace w3" "m' = m0" by auto
      have gm: "gm = m'" using a unfolding w5 g s(1) using genm genp by auto
      have f: "filter is_alignment tr = []"
        unfolding w5 g s(1) using al3 alp by (simp add: is_alignment_def)
      have d: "Ev_ModelDispatcher (model_recipe c) (model_name c) qc pc \<in> set tr"
        unfolding w5 g s(1) using md3 by simp
      show ?thesis
        apply (rule exI[of _ tok], rule exI[of _ qc], rule exI[of _ pc], rule exI[of _ m0],
               rule exI[of _ dt], rule exI[of _ "rng w1"], rule exI[of _ ra],
               rule exI[of _ ra], rule exI[of _ ra])
        unfolding cond
        using False L gm f d md(2,3) s(2) by simp
    qed
  qed
  then show ?thesis unfolding tr_def c_def .
qed

text \<open>
  C8. When the PEFT recipe has the class PromptTuningConfig and
  prompt_tuning_most_common_init is set, the driver takes the PEFT config of the dispatcher,
  loads the training split with an empty end-of-sequence token and without labels, joins its
  texts with spaces, lowers the result, splits it at every single space, and sets
  prompt_tuning_init_text to the space-joined result of most_common_words on these words and
  num_virtual_tokens; these are the calls of the step. In every other configuration the PEFT
  config is the one the dispatcher returned (none without a recipe), unchanged, and the
  step calls nothing but the dispatcher. The PEFT config of the step is the one given
  to ModelDispatcher and the one of the run.
\<close>

theorem C8_prompt_tuning_init_text:
  fixes E :: "('o, 'r) env"
  shows "(\<forall>pr. peft_recipe c = Some pr \<and> peft_config_obj pr = PromptTuningConfig \<and>
            prompt_tuning_most_common_init c \<longrightarrow>
          (\<exists>pc ds common r1 r2 r3.
             PeftDispatcher_get_peft_config E pr (rng w) = (pc, r1) \<and>
             DatasetDispatcher_get_tuning_dataset E (dataset_recipe c) (dataset_name c)
               ''train'' [] False r1 = (ds, r2) \<and>
             most_common_words E
               (split_on (CHR '' '') (str_lower E (join '' '' (text_column E ds))))
               (num_virtual_tokens pc) r2 = (common, r3) \<and>
             fst (peft_stage E c w) =
               Some (pc\<lparr>prompt_tuning_init_text := Some (join '' '' common)\<rparr>) \<and>
             trace (snd (peft_stage E c w)) = trace w @
               [Ev_PeftDispatcher pr,
                Ev_get_tuning_dataset (dataset_recipe c) (dataset_name c) ''train'' [] False,
                Ev_most_common_words
                  (split_on (CHR '' '') (str_lower E (join '' '' (text_column E ds))))
                  (num_virtual_tokens pc)])) \<and>
     (\<not> ((\<exists>pr. peft_recipe c = Some pr \<and> peft_config_obj pr = PromptTuningConfig) \<and>
          prompt_tuning_most_common_init c) \<longrightarrow>
        fst (peft_stage E c w) =
          map_option (\<lambda>pr. fst (PeftDispatcher_get_peft_config E pr (rng w))) (peft_recipe c) \<and>
        trace (snd (peft_stage E c w)) =
          trace w @ (case peft_recipe c of None \<Rightarrow> [] | Some pr \<Rightarrow> [Ev_PeftDispatcher pr])) \<and>
     (\<exists>qc. Ev_ModelDispatcher (model_recipe c) (model_name c) qc (fst (peft_stage E c w))
             \<in> set (trace (snd (driver E c w)))) \<and>
     (\<forall>L. fst (driver E c w) = Inr L \<longrightarrow> l_peft_config L = fst (peft_stage E c w))"
proof -
  have 1: "\<forall>pr. peft_recipe c = Some pr \<and> peft_config_obj pr = PromptTuningConfig \<and>
            prompt_tuning_most_common_init c \<longrightarrow>
          (\<exists>pc ds common r1 r2 r3.
             PeftDispatcher_get_peft_config E pr (rng w) = (pc, r1) \<and>
             DatasetDispatcher_get_tuning_dataset E (dataset_recipe c) (dataset_name c)
               ''train'' [] False r1 = (ds, r2) \<and>
             most_common_words E
               (split_on (CHR '' '') (str_lower E (join '' '' (text_column E ds))))
               (num_virtual_tokens pc) r2 = (common, r3) \<and>
             fst (peft_stage E c w) =
               Some (pc\<lparr>prompt_tuning_init_text := Some (join '' '' common)\<rparr>) \<and>
             trace (snd (peft_stage E c w)) = trace w @
               [Ev_PeftDispatcher pr,
                Ev_get_tuning_dataset (dataset_recipe c) (dataset_name c) ''train'' [] False,
                Ev_most_common_words
                  (split_on (CHR '' '') (str_lower E (join '' '' (text_column E ds))))
                  (num_virtual_tokens pc)])"
  proof (intro allI impI)
    fix pr
    assume a: "peft_recipe c = Some pr \<and> peft_config_obj pr = PromptTuningConfig \<and>
            prompt_tuning_most_common_init c"
    obtain pc r1 where p: "PeftDispatcher_get_peft_config E pr (rng w) = (pc, r1)"
      by (meson surj_pair)
    obtain ds r2 where d: "DatasetDispatcher_get_tuning_dataset E (dataset_recipe c)
        (dataset_name c) ''train'' [] False r1 = (ds, r2)"
      by (meson surj_pair)
    obtain common r3 where m: "most_common_words E
               (split_on (CHR '' '') (str_lower E (join '' '' (text_column E ds))))
               (num_virtual_tokens pc) r2 = (common, r3)"
      by (meson surj_pair)
    have f: "fst (peft_stage E c w) =
               Some (pc\<lparr>prompt_tuning_init_text := Some (join '' '' common)\<rparr>)"
      using a p d m
      by (simp add: peft_stage_def ext_eq is_prompt_tuning_def init_words_def)
    have t: "trace (snd (peft_stage E c w)) = trace w @
               [Ev_PeftDispatcher pr,
                Ev_get_tuning_dataset (dataset_recipe c) (dataset_name c) ''train'' [] False,
                Ev_most_common_words
                  (split_on (CHR '' '') (str_lower E (join '' '' (text_column E ds))))
                  (num_virtual_tokens pc)]"
      using a p d m
      by (simp add: peft_stage_def ext_eq is_prompt_tuning_def init_words_def)
    show "(\<exists>pc ds common r1 r2 r3.
             PeftDispatcher_get_peft_config E pr (rng w) = (pc, r1) \<and>
             DatasetDispatcher_get_tuning_dataset E (dataset_recipe c) (dataset_name c)
               ''train'' [] False r1 = (ds, r2) \<and>
             most_common_words E
               (split_on (CHR '' '') (str_lower E (join '' '' (text_column E ds))))
               (num_virtual_tokens pc) r2 = (common, r3) \<and>
             fst (peft_stage E c w) =
               Some (pc\<lparr>prompt_tuning_init_text := Some (join '' '' common)\<rparr>) \<and>
             trace (snd (peft_stage E c w)) = trace w @
               [Ev_PeftDispatcher pr,
                Ev_get_tuning_dataset (dataset_recipe c) (dataset_name c) ''train'' [] False,
                Ev_most_common_words
                  (split_on (CHR '' '') (str_lower E (join '' '' (text_column E ds))))
                  (num_virtual_tokens pc)])"
      apply (rule exI[of _ pc], rule exI[of _ ds], rule exI[of _ common],
             rule exI[of _ r1], rule exI[of _ r2], rule exI[of _ r3])
      using p d m f t by simp
  qed
  have 2: "\<not> ((\<exists>pr. peft_recipe c = Some pr \<and> peft_config_obj pr = PromptTuningConfig) \<and>
          prompt_tuning_most_common_init c) \<longrightarrow>
        fst (peft_stage E c w) =
          map_option (\<lambda>pr. fst (PeftDispatcher_get_peft_config E pr (rng w))) (peft_recipe c) \<and>
        trace (snd (peft_stage E c w)) =
          trace w @ (case peft_recipe c of None \<Rightarrow> [] | Some pr \<Rightarrow> [Ev_PeftDispatcher pr])"
    by (auto simp: peft_stage_def ext_eq is_prompt_tuning_def split: option.splits)
  have 3: "\<exists>qc. Ev_ModelDispatcher (model_recipe c) (model_name c) qc (fst (peft_stage E c w))
             \<in> set (trace (snd (driver E c w)))"
    using driver_model_call[of E c w] by auto
  have 4: "\<forall>L. fst (driver E c w) = Inr L \<longrightarrow> l_peft_config L = fst (peft_stage E c w)"
    by (cases rule: driver_cases[where E=E and c=c and w=w]) auto
  from 1 2 3 4 show ?thesis by (intro conjI)
qed

text \<open>
  C7. Let the loading of the training split return the support set and the training set, and
  let the loading of the validation split raise. When validation_split_size is None the
  run ends with the assertion error and its message, and nothing is split. Otherwise
  train_test_split is called on the training set with the test size validation_split_size;
  in a run that ends normally the validation set is the test part of the result, the
  training set is its train part (after the selection of training_size, when one is
  configured and not 0), and the support set is the one that the first loading returned.
\<close>

theorem C7_validation_fallback:
  fixes E :: "('o, 'r) env"
  assumes "peft_stage E c w = (pc, w1)"
    and "model_stage E c pc w1 = ((tok, qc, m), w2)"
    and "DatasetDispatcher_get_support_and_tuning_dataset E (dataset_recipe c)
           (dataset_name c)
           \<lparr>kw_split = ''train'', kw_num_examples = Some (num_examples c),
              kw_dataset_support = None,
              kw_postprocess_function = postprocess_function (model_template_recipe c),
              kw_eos_token = eos_token E tok, kw_include_labels_inside_text = True,
              kw_num_proc = num_proc c, kw_dynamic_examples = dynamic_examples c\<rparr>
           (rng w2) = (Some (supp, dt), r1)"
    and "DatasetDispatcher_get_support_and_tuning_dataset E (dataset_recipe c)
           (dataset_name c)
           \<lparr>kw_split = ''validation'', kw_num_examples = None,
              kw_dataset_support = Some supp,
              kw_postprocess_function = postprocess_function (model_template_recipe c),
              kw_eos_token = eos_token E tok, kw_include_labels_inside_text = True,
              kw_num_proc = num_proc c, kw_dynamic_examples = dynamic_examples c\<rparr>
           r1 = (None, r2)"
  shows "(validation_split_size c = None \<longrightarrow>
       fst (driver E c w) = Inl (AssertionError
           ''No validation set is available but validation split size has not been specified'') \<and>
       trace (snd (driver E c w)) = trace w2 @
         [Ev_get_support_and_tuning_dataset (dataset_recipe c) (dataset_name c)
            \<lparr>kw_split = ''train'', kw_num_examples = Some (num_examples c),
              kw_dataset_support = None,
              kw_postprocess_function = postprocess_function (model_template_recipe c),
              kw_eos_token = eos_token E tok, kw_include_labels_inside_text = True,
              kw_num_proc = num_proc c, kw_dynamic_examples = dynamic_examples c\<rparr>,
          Ev_get_support_and_tuning_dataset (dataset_recipe c) (dataset_name c)
            \<lparr>kw_split = ''validation'', kw_num_examples = None,
              kw_dataset_support = Some supp,
              kw_postprocess_function = postprocess_function (model_template_recipe c),
              kw_eos_token = eos_token E tok, kw_include_labels_inside_text = True,
              kw_num_proc = num_proc c, kw_dynamic_examples = dynamic_examples c\<rparr>]) \<and>
     (\<forall>test_size. validation_split_size c = Some test_size \<longrightarrow>
       Ev_train_test_split dt test_size \<in> set (trace (snd (driver E c w))) \<and>
       (\<forall>L. fst (driver E c w) = Inr L \<longrightarrow>
          l_dataset_support L = supp \<and>
          l_dataset_val L = snd (fst (train_test_split E dt test_size r2)) \<and>
          (training_size c = None \<or> training_size c = Some 0 \<longrightarrow>
             l_dataset_train L = fst (fst (train_test_split E dt test_size r2))) \<and>
          (\<forall>n. training_size c = Some n \<and> n \<noteq> 0 \<longrightarrow>
             fst (select E (fst (fst (train_test_split E dt test_size r2))) [0..n - 1]
                    (snd (train_test_split E dt test_size r2))) = Some (l_dataset_train L))))"
proof -
  have a3: "DatasetDispatcher_get_support_and_tuning_dataset E (dataset_recipe c)
             (dataset_name c) (kwargs_train E c tok) (rng w2) = (Some (supp, dt), r1)"
    using assms(3) by (simp add: kwargs_train_def)
  have a4: "DatasetDispatcher_get_support_and_tuning_dataset E (dataset_recipe c)
             (dataset_name c) (kwargs_validation E c tok supp) r1 = (None, r2)"
    using assms(4) by (simp add: kwargs_validation_def)
  have 1: "validation_split_size c = None \<longrightarrow>
       fst (driver E c w) = Inl (AssertionError
           ''No validation set is available but validation split size has not been specified'') \<and>
       trace (snd (driver E c w)) = trace w2 @
         [Ev_get_support_and_tuning_dataset (dataset_recipe c) (dataset_name c)
            \<lparr>kw_split = ''train'', kw_num_examples = Some (num_examples c),
              kw_dataset_support = None,
              kw_postprocess_function = postprocess_function (model_template_recipe c),
              kw_eos_token = eos_token E tok, kw_include_labels_inside_text = True,
              kw_num_proc = num_proc c, kw_dynamic_examples = dynamic_examples c\<rparr>,
          Ev_get_support_and_tuning_dataset (dataset_recipe c) (dataset_name c)
            \<lparr>kw_split = ''validation'', kw_num_examples = None,
              kw_dataset_support = Some supp,
              kw_postprocess_function = postprocess_function (model_template_recipe c),
              kw_eos_token = eos_token E tok, kw_include_labels_inside_text = True,
              kw_num_proc = num_proc c, kw_dynamic_examples = dynamic_examples c\<rparr>]"
  proof
    assume n: "validation_split_size c = None"
    from dataset_stage_fallback(1)[OF a3 a4 n] assms(1,2)
    have d: "driver E c w = (Inl (AssertionError assert_message),
         w2\<lparr>trace := trace w2 @
              [Ev_get_support_and_tuning_dataset (dataset_recipe c) (dataset_name c)
                 (kwargs_train E c tok),
               Ev_get_support_and_tuning_dataset (dataset_recipe c) (dataset_name c)
                 (kwargs_validation E c tok supp)],
           rng := r2\<rparr>)"
      by (simp add: driver_def)
    show "fst (driver E c w) = Inl (AssertionError
           ''No validation set is available but validation split size has not been specified'') \<and>
       trace (snd (driver E c w)) = trace w2 @
         [Ev_get_support_and_tuning_dataset (dataset_recipe c) (dataset_name c)
            \<lparr>kw_split = ''train'', kw_num_examples = Some (num_examples c),
              kw_dataset_support = None,
              kw_postprocess_function = postprocess_function (model_template_recipe c),
              kw_eos_token = eos_token E tok, kw_include_labels_inside_text = True,
              kw_num_proc = num_proc c, kw_dynamic_examples = dynamic_examples c\<rparr>,
          Ev_get_support_and_tuning_dataset (dataset_recipe c) (dataset_name c)
            \<lparr>kw_split = ''validation'', kw_num_examples = None,
              kw_dataset_support = Some supp,
              kw_postprocess_function = postprocess_function (model_template_recipe c),
              kw_eos_token = eos_token E tok, kw_include_labels_inside_text = True,
              kw_num_proc = num_proc c, kw_dynamic_examples = dynamic_examples c\<rparr>]"
      unfolding d by (simp add: assert_message_def kwargs_train_def kwargs_validation_def)
  qed
  have 2: "Ev_train_test_split dt test_size \<in> set (trace (snd (driver E c w))) \<and>
       (\<forall>L. fst (driver E c w) = Inr L \<longrightarrow>
          l_dataset_support L = supp \<and>
          l_dataset_val L = snd (fst (train_test_split E dt test_size r2)) \<and>
          (training_size c = None \<or> training_size c = Some 0 \<longrightarrow>
             l_dataset_train L = fst (fst (train_test_split E dt test_size r2))) \<and>
          (\<forall>n. training_size c = Some n \<and> n \<noteq> 0 \<longrightarrow>
             fst (select E (fst (fst (train_test_split E dt test_size r2))) [0..n - 1]
                    (snd (train_test_split E dt test_size r2))) = Some (l_dataset_train L)))"
    if s: "validation_split_size c = Some test_size" for test_size
  proof -
    obtain nt nv r3 where sp: "train_test_split E dt test_size r2 = ((nt, nv), r3)"
      by (metis surj_pair)
    define wd where "wd = w2\<lparr>trace := trace w2 @
              [Ev_get_support_and_tuning_dataset (dataset_recipe c) (dataset_name c)
                 (kwargs_train E c tok),
               Ev_get_support_and_tuning_dataset (dataset_recipe c) (dataset_name c)
                 (kwargs_validation E c tok supp),
               Ev_train_test_split dt test_size],
             rng := r3\<rparr>"
    have ds: "dataset_stage E c tok w2 = dataset_tail E c supp nt nv wd"
      unfolding wd_def by (rule dataset_stage_fallback(2)[OF a3 a4 s sp])
    have "extends c 10 10 wd (snd (dataset_tail E c supp nt nv wd))"
      by (rule dataset_tail_ext)
    then have "Ev_train_test_split dt test_size \<in> set (trace (snd (dataset_stage E c tok w2)))"
      unfolding ds by (auto simp: extends_def wd_def)
    with driver_keeps_dataset_calls[OF assms(1,2)]
    have ev: "Ev_train_test_split dt test_size \<in> set (trace (snd (driver E c w)))" by blast
    have rw: "rng wd = r3" by (simp add: wd_def)
    have l: "l_dataset_support L = supp \<and>
          l_dataset_val L = snd (fst (train_test_split E dt test_size r2)) \<and>
          (training_size c = None \<or> training_size c = Some 0 \<longrightarrow>
             l_dataset_train L = fst (fst (train_test_split E dt test_size r2))) \<and>
          (\<forall>n. training_size c = Some n \<and> n \<noteq> 0 \<longrightarrow>
             fst (select E (fst (fst (train_test_split E dt test_size r2))) [0..n - 1]
                    (snd (train_test_split E dt test_size r2))) = Some (l_dataset_train L))" if L: "fst (driver E c w) = Inr L" for L
    proof -
      from L obtain s' t' v' w3 where
        r: "dataset_tail E c supp nt nv wd = (Inr (s', t', v'), w3)"
        and LL: "l_dataset_support L = s'" "l_dataset_train L = t'" "l_dataset_val L = v'"
        using assms(1,2) ds
        by (auto simp: driver_def split: prod.splits sum.splits)
      from dataset_tail_value[OF r] LL sp rw
      show ?thesis by simp
    qed
    from ev l show ?thesis by blast
  qed
  from 1 2 show ?thesis by blast
qed

text \<open>
  C5. Every call of a dispatcher in a run is on the recipe of the configuration (and on its
  model name or dataset name). In a run that ends normally TokenizerDispatcher and
  ModelDispatcher are called exactly once; the tokenizer is the result of TokenizerDispatcher on
  the tokenizer recipe and the model name; the base model is the result of ModelDispatcher
  on the model recipe, the model name, the quantization config and the PEFT config of the
  run; the quantization config is the result of QuantizationDispatcher on the recipe, or
  None without a recipe; the PEFT config is the result of PeftDispatcher on the recipe, with
  or without an initialization text set by the driver, or None without a recipe; the
  support set and the training set are loaded by DatasetDispatcher on the dataset recipe and
  the dataset name, the validation set is loaded by it or is the test part of the split of
  that training set, and the training set of the run is that training set, or the train
  part of the split, or a selection of one of them.
\<close>

theorem C5_dispatchers_build_the_objects:
  fixes E :: "('o, 'r) env"
  shows "((\<forall>tkr mn. Ev_TokenizerDispatcher tkr mn \<in> set (trace (snd (main E r0))) \<longrightarrow>
        tkr = tokenizer_recipe (parsed_config E) \<and> mn = model_name (parsed_config E)) \<and>
     (\<forall>mr mn qc pc. Ev_ModelDispatcher mr mn qc pc \<in> set (trace (snd (main E r0))) \<longrightarrow>
        mr = model_recipe (parsed_config E) \<and> mn = model_name (parsed_config E)) \<and>
     (\<forall>qr. Ev_QuantizationDispatcher qr \<in> set (trace (snd (main E r0))) \<longrightarrow>
        quantization_recipe (parsed_config E) = Some qr) \<and>
     (\<forall>pr. Ev_PeftDispatcher pr \<in> set (trace (snd (main E r0))) \<longrightarrow> peft_recipe (parsed_config E) = Some pr) \<and>
     (\<forall>dr dn kw. Ev_get_support_and_tuning_dataset dr dn kw \<in> set (trace (snd (main E r0))) \<longrightarrow>
        dr = dataset_recipe (parsed_config E) \<and> dn = dataset_name (parsed_config E)) \<and>
     (\<forall>dr dn sp eos lab. Ev_get_tuning_dataset dr dn sp eos lab \<in> set (trace (snd (main E r0))) \<longrightarrow>
        dr = dataset_recipe (parsed_config E) \<and> dn = dataset_name (parsed_config E))) \<and>
     (\<forall>L. fst (main E r0) = Inr L \<longrightarrow>
       length (filter is_TokenizerDispatcher (trace (snd (main E r0)))) = 1 \<and>
     length (filter is_ModelDispatcher (trace (snd (main E r0)))) = 1 \<and>
       (\<exists>r. l_tokenizer L =
           fst (TokenizerDispatcher_get_tokenizer E (tokenizer_recipe (parsed_config E)) (model_name (parsed_config E)) r)) \<and>
       (\<exists>r. l_base_model L =
           fst (ModelDispatcher_get_model E (model_recipe (parsed_config E)) (model_name (parsed_config E))
                  (l_quantization_config L) (l_peft_config L) r)) \<and>
       (case quantization_recipe (parsed_config E) of
          None \<Rightarrow> l_quantization_config L = None
        | Some qr \<Rightarrow> \<exists>r. l_quantization_config L =
            Some (fst (QuantizationDispatcher_get_quantization_config E qr r))) \<and>
       (case peft_recipe (parsed_config E) of
          None \<Rightarrow> l_peft_config L = None
        | Some pr \<Rightarrow> \<exists>r.
            l_peft_config L = Some (fst (PeftDispatcher_get_peft_config E pr r)) \<or>
            (\<exists>txt. l_peft_config L =
               Some ((fst (PeftDispatcher_get_peft_config E pr r))
                       \<lparr>prompt_tuning_init_text := Some txt\<rparr>))) \<and>
       (\<exists>dt r1 r2.
          fst (DatasetDispatcher_get_support_and_tuning_dataset E (dataset_recipe (parsed_config E))
            (dataset_name (parsed_config E))
            \<lparr>kw_split = ''train'', kw_num_examples = Some (num_examples (parsed_config E)),
              kw_dataset_support = None,
              kw_postprocess_function = postprocess_function (model_template_recipe (parsed_config E)),
              kw_eos_token = eos_token E (l_tokenizer L), kw_include_labels_inside_text = True,
              kw_num_proc = num_proc (parsed_config E), kw_dynamic_examples = dynamic_examples (parsed_config E)\<rparr> r1) = Some (l_dataset_support L, dt) \<and>
          ((\<exists>x. fst (DatasetDispatcher_get_support_and_tuning_dataset E (dataset_recipe (parsed_config E))
            (dataset_name (parsed_config E))
            \<lparr>kw_split = ''validation'', kw_num_examples = None,
              kw_dataset_support = Some (l_dataset_support L),
              kw_postprocess_function = postprocess_function (model_template_recipe (parsed_config E)),
              kw_eos_token = eos_token E (l_tokenizer L), kw_include_labels_inside_text = True,
              kw_num_proc = num_proc (parsed_config E), kw_dynamic_examples = dynamic_examples (parsed_config E)\<rparr> r2) = Some (x, l_dataset_val L)) \<and>
             (l_dataset_train L = dt \<or>
              (\<exists>idx r'. fst (select E dt idx r') = Some (l_dataset_train L))) \<or>
           fst (DatasetDispatcher_get_support_and_tuning_dataset E (dataset_recipe (parsed_config E))
            (dataset_name (parsed_config E))
            \<lparr>kw_split = ''validation'', kw_num_examples = None,
              kw_dataset_support = Some (l_dataset_support L),
              kw_postprocess_function = postprocess_function (model_template_recipe (parsed_config E)),
              kw_eos_token = eos_token E (l_tokenizer L), kw_include_labels_inside_text = True,
              kw_num_proc = num_proc (parsed_config E), kw_dynamic_examples = dynamic_examples (parsed_config E)\<rparr> r2) = None \<and>
             (\<exists>sz r'. validation_split_size (parsed_config E) = Some sz \<and>
                l_dataset_val L = snd (fst (train_test_split E dt sz r')) \<and>
                (l_dataset_train L = fst (fst (train_test_split E dt sz r')) \<or>
                 (\<exists>idx r''. fst (select E (fst (fst (train_test_split E dt sz r'))) idx r'')
                     = Some (l_dataset_train L)))))))"
proof -
  define c where "c = parsed_config E"
  define w where "w = (\<lparr>trace = [Ev_set_seed 42, Ev_get_config_from_argparser],
      rng = snd (get_config_from_argparser E (set_seed E 42)), stdout = []\<rparr> :: ('o, 'r) world)"
  define tr where "tr = trace (snd (main E r0))"
  have m: "main E r0 = driver E c w" unfolding c_def w_def by (rule main_eq)
  from main_trace[of E r0] obtain evs where
    evs: "tr = Ev_set_seed 42 # Ev_get_config_from_argparser # evs" "staged c 2 16 evs"
    unfolding tr_def c_def by auto
  from evs(2) have d: "\<forall>e\<in>set evs. dispatched_from c e"
    by (simp add: staged_def list_all_iff)
  have 1: "(\<forall>tkr mn. Ev_TokenizerDispatcher tkr mn \<in> set tr \<longrightarrow>
        tkr = tokenizer_recipe c \<and> mn = model_name c) \<and>
     (\<forall>mr mn qc pc. Ev_ModelDispatcher mr mn qc pc \<in> set tr \<longrightarrow>
        mr = model_recipe c \<and> mn = model_name c) \<and>
     (\<forall>qr. Ev_QuantizationDispatcher qr \<in> set tr \<longrightarrow>
        quantization_recipe c = Some qr) \<and>
     (\<forall>pr. Ev_PeftDispatcher pr \<in> set tr \<longrightarrow> peft_recipe c = Some pr) \<and>
     (\<forall>dr dn kw. Ev_get_support_and_tuning_dataset dr dn kw \<in> set tr \<longrightarrow>
        dr = dataset_recipe c \<and> dn = dataset_name c) \<and>
     (\<forall>dr dn sp eos lab. Ev_get_tuning_dataset dr dn sp eos lab \<in> set tr \<longrightarrow>
        dr = dataset_recipe c \<and> dn = dataset_name c)"
    unfolding evs(1) using dispatched_events[OF d] by simp
  from driver_model_call[of E c w] obtain pe qe qc post where
    t: "tr = [Ev_set_seed 42, Ev_get_config_from_argparser] @ pe @
         Ev_TokenizerDispatcher (tokenizer_recipe c) (model_name c) # qe @
         Ev_ModelDispatcher (model_recipe c) (model_name c) qc (fst (peft_stage E c w)) # post"
    and pe: "staged c 2 4 pe" and post: "staged c 8 16 post"
    and q: "case quantization_recipe c of
        None \<Rightarrow> qe = [] \<and> qc = None
      | Some qr \<Rightarrow> qe = [Ev_QuantizationDispatcher qr] \<and> qc \<noteq> None"
    unfolding tr_def main_eq c_def w_def by auto
  from q have qe: "qe = [] \<or> (\<exists>qr. qe = [Ev_QuantizationDispatcher qr])"
    by (auto split: option.splits)
  have f: "filter is_TokenizerDispatcher pe = []" "filter is_ModelDispatcher pe = []"
    "filter is_TokenizerDispatcher post = []" "filter is_ModelDispatcher post = []"
    by (rule staged_filter_none[OF pe] staged_filter_none[OF post];
        auto dest: stage_of_kinds)+
  have 2: "length (filter is_TokenizerDispatcher tr) = 1 \<and>
     length (filter is_ModelDispatcher tr) = 1"
    unfolding t using f qe
    by (auto simp: is_TokenizerDispatcher_def is_ModelDispatcher_def)
  have 3: "(\<exists>r. l_tokenizer L =
           fst (TokenizerDispatcher_get_tokenizer E (tokenizer_recipe c) (model_name c) r)) \<and>
       (\<exists>r. l_base_model L =
           fst (ModelDispatcher_get_model E (model_recipe c) (model_name c)
                  (l_quantization_config L) (l_peft_config L) r)) \<and>
       (case quantization_recipe c of
          None \<Rightarrow> l_quantization_config L = None
        | Some qr \<Rightarrow> \<exists>r. l_quantization_config L =
            Some (fst (QuantizationDispatcher_get_quantization_config E qr r))) \<and>
       (case peft_recipe c of
          None \<Rightarrow> l_peft_config L = None
        | Some pr \<Rightarrow> \<exists>r.
            l_peft_config L = Some (fst (PeftDispatcher_get_peft_config E pr r)) \<or>
            (\<exists>txt. l_peft_config L =
               Some ((fst (PeftDispatcher_get_peft_config E pr r))
                       \<lparr>prompt_tuning_init_text := Some txt\<rparr>))) \<and>
       (\<exists>dt r1 r2.
          fst (DatasetDispatcher_get_support_and_tuning_dataset E (dataset_recipe c)
            (dataset_name c)
            \<lparr>kw_split = ''train'', kw_num_examples = Some (num_examples c),
              kw_dataset_support = None,
              kw_postprocess_function = postprocess_function (model_template_recipe c),
              kw_eos_token = eos_token E (l_tokenizer L), kw_include_labels_inside_text = True,
              kw_num_proc = num_proc c, kw_dynamic_examples = dynamic_examples c\<rparr> r1) = Some (l_dataset_support L, dt) \<and>
          ((\<exists>x. fst (DatasetDispatcher_get_support_and_tuning_dataset E (dataset_recipe c)
            (dataset_name c)
            \<lparr>kw_split = ''validation'', kw_num_examples = None,
              kw_dataset_support = Some (l_dataset_support L),
              kw_postprocess_function = postprocess_function (model_template_recipe c),
              kw_eos_token = eos_token E (l_tokenizer L), kw_include_labels_inside_text = True,
              kw_num_proc = num_proc c, kw_dynamic_examples = dynamic_examples c\<rparr> r2) = Some (x, l_dataset_val L)) \<and>
             (l_dataset_train L = dt \<or>
              (\<exists>idx r'. fst (select E dt idx r') = Some (l_dataset_train L))) \<or>
           fst (DatasetDispatcher_get_support_and_tuning_dataset E (dataset_recipe c)
            (dataset_name c)
            \<lparr>kw_split = ''validation'', kw_num_examples = None,
              kw_dataset_support = Some (l_dataset_support L),
              kw_postprocess_function = postprocess_function (model_template_recipe c),
              kw_eos_token = eos_token E (l_tokenizer L), kw_include_labels_inside_text = True,
              kw_num_proc = num_proc c, kw_dynamic_examples = dynamic_examples c\<rparr> r2) = None \<and>
             (\<exists>sz r'. validation_split_size c = Some sz \<and>
                l_dataset_val L = snd (fst (train_test_split E dt sz r')) \<and>
                (l_dataset_train L = fst (fst (train_test_split E dt sz r')) \<or>
                 (\<exists>idx r''. fst (select E (fst (fst (train_test_split E dt sz r'))) idx r'')
                     = Some (l_dataset_train L))))))" if L: "fst (main E r0) = Inr L" for L
  proof (cases rule: driver_cases[where E=E and c=c and w=w])
    case (abort pc w1 tok qc m0 w2 err w3)
    with L m show ?thesis by simp
  next
    case (complete pc w1 tok qc m0 w2 sup dt dv w3 m' w4 outs texts w5)
    with L m have LL: "L = \<lparr>l_peft_config = pc, l_tokenizer = tok,
          l_quantization_config = qc, l_base_model = m0, l_dataset_support = sup,
          l_dataset_train = dt, l_dataset_val = dv, l_model = m', l_outputs = outs,
          l_texts = texts\<rparr>" by simp
    from model_stage_events[OF complete(2)] obtain r1 r2 where
      ms: "tok = fst (TokenizerDispatcher_get_tokenizer E (tokenizer_recipe c) (model_name c) (rng w1))"
        "case quantization_recipe c of
              None \<Rightarrow> qc = None
            | Some qr \<Rightarrow>
                qc = Some (fst (QuantizationDispatcher_get_quantization_config E qr r1))"
        "m0 = fst (ModelDispatcher_get_model E (model_recipe c) (model_name c) qc pc r2)"
      by (auto split: option.splits)
    note ps = peft_stage_value[OF complete(1)]
    note dv = dataset_stage_value[OF complete(3), unfolded kwargs_train_def kwargs_validation_def]
    have a: "\<exists>r. l_tokenizer L =
           fst (TokenizerDispatcher_get_tokenizer E (tokenizer_recipe c) (model_name c) r)"
      unfolding LL using ms(1) by auto
    have b: "\<exists>r. l_base_model L =
           fst (ModelDispatcher_get_model E (model_recipe c) (model_name c)
                  (l_quantization_config L) (l_peft_config L) r)"
      unfolding LL using ms(3) by auto
    have cc: "case quantization_recipe c of
          None \<Rightarrow> l_quantization_config L = None
        | Some qr \<Rightarrow> \<exists>r. l_quantization_config L =
            Some (fst (QuantizationDispatcher_get_quantization_config E qr r))"
      unfolding LL using ms(2) by (auto split: option.splits)
    have dd: "case peft_recipe c of
          None \<Rightarrow> l_peft_config L = None
        | Some pr \<Rightarrow> \<exists>r.
            l_peft_config L = Some (fst (PeftDispatcher_get_peft_config E pr r)) \<or>
            (\<exists>txt. l_peft_config L =
               Some ((fst (PeftDispatcher_get_peft_config E pr r))
                       \<lparr>prompt_tuning_init_text := Some txt\<rparr>))"
      unfolding LL using ps by (auto split: option.splits)
    from dv obtain dt0 r where dv': "fst (DatasetDispatcher_get_support_and_tuning_dataset E (dataset_recipe c)
            (dataset_name c)
            \<lparr>kw_split = ''train'', kw_num_examples = Some (num_examples c),
              kw_dataset_support = None,
              kw_postprocess_function = postprocess_function (model_template_recipe c),
              kw_eos_token = eos_token E tok, kw_include_labels_inside_text = True,
              kw_num_proc = num_proc c, kw_dynamic_examples = dynamic_examples c\<rparr> (rng w2)) = Some (sup, dt0) \<and>
     ((\<exists>x. fst (DatasetDispatcher_get_support_and_tuning_dataset E (dataset_recipe c)
            (dataset_name c)
            \<lparr>kw_split = ''validation'', kw_num_examples = None,
              kw_dataset_support = Some sup,
              kw_postprocess_function = postprocess_function (model_template_recipe c),
              kw_eos_token = eos_token E tok, kw_include_labels_inside_text = True,
              kw_num_proc = num_proc c, kw_dynamic_examples = dynamic_examples c\<rparr> r) = Some (x, dv)) \<and>
        (dt = dt0 \<or> (\<exists>idx r'. fst (select E dt0 idx r') = Some dt)) \<or>
      fst (DatasetDispatcher_get_support_and_tuning_dataset E (dataset_recipe c)
            (dataset_name c)
            \<lparr>kw_split = ''validation'', kw_num_examples = None,
              kw_dataset_support = Some sup,
              kw_postprocess_function = postprocess_function (model_template_recipe c),
              kw_eos_token = eos_token E tok, kw_include_labels_inside_text = True,
              kw_num_proc = num_proc c, kw_dynamic_examples = dynamic_examples c\<rparr> r) = None \<and>
        (\<exists>sz r'. validation_split_size c = Some sz \<and>
           dv = snd (fst (train_test_split E dt0 sz r')) \<and>
           (dt = fst (fst (train_test_split E dt0 sz r')) \<or>
            (\<exists>idx r''. fst (select E (fst (fst (train_test_split E dt0 sz r'))) idx r'')
                = Some dt)))) "
      by blast
    show ?thesis
      apply (intro conjI)
          apply (rule a)
         apply (rule b)
        apply (rule cc)
       apply (rule dd)
      apply (rule exI[of _ dt0], rule exI[of _ "rng w2"], rule exI[of _ r])
      unfolding LL using dv' apply simp
      done
  qed
  have 4: "\<forall>L. fst (main E r0) = Inr L \<longrightarrow>
       length (filter is_TokenizerDispatcher tr) = 1 \<and>
     length (filter is_ModelDispatcher tr) = 1 \<and>
       (\<exists>r. l_tokenizer L =
           fst (TokenizerDispatcher_get_tokenizer E (tokenizer_recipe c) (model_name c) r)) \<and>
       (\<exists>r. l_base_model L =
           fst (ModelDispatcher_get_model E (model_recipe c) (model_name c)
                  (l_quantization_config L) (l_peft_config L) r)) \<and>
       (case quantization_recipe c of
          None \<Rightarrow> l_quantization_config L = None
        | Some qr \<Rightarrow> \<exists>r. l_quantization_config L =
            Some (fst (QuantizationDispatcher_get_quantization_config E qr r))) \<and>
       (case peft_recipe c of
          None \<Rightarrow> l_peft_config L = None
        | Some pr \<Rightarrow> \<exists>r.
            l_peft_config L = Some (fst (PeftDispatcher_get_peft_config E pr r)) \<or>
            (\<exists>txt. l_peft_config L =
               Some ((fst (PeftDispatcher_get_peft_config E pr r))
                       \<lparr>prompt_tuning_init_text := Some txt\<rparr>))) \<and>
       (\<exists>dt r1 r2.
          fst (DatasetDispatcher_get_support_and_tuning_dataset E (dataset_recipe c)
            (dataset_name c)
            \<lparr>kw_split = ''train'', kw_num_examples = Some (num_examples c),
              kw_dataset_support = None,
              kw_postprocess_function = postprocess_function (model_template_recipe c),
              kw_eos_token = eos_token E (l_tokenizer L), kw_include_labels_inside_text = True,
              kw_num_proc = num_proc c, kw_dynamic_examples = dynamic_examples c\<rparr> r1) = Some (l_dataset_support L, dt) \<and>
          ((\<exists>x. fst (DatasetDispatcher_get_support_and_tuning_dataset E (dataset_recipe c)
            (dataset_name c)
            \<lparr>kw_split = ''validation'', kw_num_examples = None,
              kw_dataset_support = Some (l_dataset_support L),
              kw_postprocess_function = postprocess_function (model_template_recipe c),
              kw_eos_token = eos_token E (l_tokenizer L), kw_include_labels_inside_text = True,
              kw_num_proc = num_proc c, kw_dynamic_examples = dynamic_examples c\<rparr> r2) = Some (x, l_dataset_val L)) \<and>
             (l_dataset_train L = dt \<or>
              (\<exists>idx r'. fst (select E dt idx r') = Some (l_dataset_train L))) \<or>
           fst (DatasetDispatcher_get_support_and_tuning_dataset E (dataset_recipe c)
            (dataset_name c)
            \<lparr>kw_split = ''validation'', kw_num_examples = None,
              kw_dataset_support = Some (l_dataset_support L),
              kw_postprocess_function = postprocess_function (model_template_recipe c),
              kw_eos_token = eos_token E (l_tokenizer L), kw_include_labels_inside_text = True,
              kw_num_proc = num_proc c, kw_dynamic_examples = dynamic_examples c\<rparr> r2) = None \<and>
             (\<exists>sz r'. validation_split_size c = Some sz \<and>
                l_dataset_val L = snd (fst (train_test_split E dt sz r')) \<and>
                (l_dataset_train L = fst (fst (train_test_split E dt sz r')) \<or>
                 (\<exists>idx r''. fst (select E (fst (fst (train_test_split E dt sz r'))) idx r'')
                     = Some (l_dataset_train L))))))"
  proof (intro allI impI)
    fix L assume L: "fst (main E r0) = Inr L"
    from 2 have t1: "length (filter is_TokenizerDispatcher tr) = 1"
      and t2: "length (filter is_ModelDispatcher tr) = 1" by simp_all
    show "length (filter is_TokenizerDispatcher tr) = 1 \<and>
     length (filter is_ModelDispatcher tr) = 1 \<and>
       (\<exists>r. l_tokenizer L =
           fst (TokenizerDispatcher_get_tokenizer E (tokenizer_recipe c) (model_name c) r)) \<and>
       (\<exists>r. l_base_model L =
           fst (ModelDispatcher_get_model E (model_recipe c) (model_name c)
                  (l_quantization_config L) (l_peft_config L) r)) \<and>
       (case quantization_recipe c of
          None \<Rightarrow> l_quantization_config L = None
        | Some qr \<Rightarrow> \<exists>r. l_quantization_config L =
            Some (fst (QuantizationDispatcher_get_quantization_config E qr r))) \<and>
       (case peft_recipe c of
          None \<Rightarrow> l_peft_config L = None
        | Some pr \<Rightarrow> \<exists>r.
            l_peft_config L = Some (fst (PeftDispatcher_get_peft_config E pr r)) \<or>
            (\<exists>txt. l_peft_config L =
               Some ((fst (PeftDispatcher_get_peft_config E pr r))
                       \<lparr>prompt_tuning_init_text := Some txt\<rparr>))) \<and>
       (\<exists>dt r1 r2.
          fst (DatasetDispatcher_get_support_and_tuning_dataset E (dataset_recipe c)
            (dataset_name c)
            \<lparr>kw_split = ''train'', kw_num_examples = Some (num_examples c),
              kw_dataset_support = None,
              kw_postprocess_function = postprocess_function (model_template_recipe c),
              kw_eos_token = eos_token E (l_tokenizer L), kw_include_labels_inside_text = True,
              kw_num_proc = num_proc c, kw_dynamic_examples = dynamic_examples c\<rparr> r1) = Some (l_dataset_support L, dt) \<and>
          ((\<exists>x. fst (DatasetDispatcher_get_support_and_tuning_dataset E (dataset_recipe c)
            (dataset_name c)
            \<lparr>kw_split = ''validation'', kw_num_examples = None,
              kw_dataset_support = Some (l_dataset_support L),
              kw_postprocess_function = postprocess_function (model_template_recipe c),
              kw_eos_token = eos_token E (l_tokenizer L), kw_include_labels_inside_text = True,
              kw_num_proc = num_proc c, kw_dynamic_examples = dynamic_examples c\<rparr> r2) = Some (x, l_dataset_val L)) \<and>
             (l_dataset_train L = dt \<or>
              (\<exists>idx r'. fst (select E dt idx r') = Some (l_dataset_train L))) \<or>
           fst (DatasetDispatcher_get_support_and_tuning_dataset E (dataset_recipe c)
            (dataset_name c)
            \<lparr>kw_split = ''validation'', kw_num_examples = None,
              kw_dataset_support = Some (l_dataset_support L),
              kw_postprocess_function = postprocess_function (model_template_recipe c),
              kw_eos_token = eos_token E (l_tokenizer L), kw_include_labels_inside_text = True,
              kw_num_proc = num_proc c, kw_dynamic_examples = dynamic_examples c\<rparr> r2) = None \<and>
             (\<exists>sz r'. validation_split_size c = Some sz \<and>
                l_dataset_val L = snd (fst (train_test_split E dt sz r')) \<and>
                (l_dataset_train L = fst (fst (train_test_split E dt sz r')) \<or>
                 (\<exists>idx r''. fst (select E (fst (fst (train_test_split E dt sz r'))) idx r'')
                     = Some (l_dataset_train L))))))"
      by (rule conjI[OF t1 conjI[OF t2 3[OF L]]])
  qed
  show ?thesis
    unfolding tr_def[symmetric] c_def[symmetric] by (rule conjI[OF 1 4])
qed

text \<open>
  C1. The run on \<open>demo_env True demo_config\<close> ends normally after the calls of
  \<open>demo_trace\<close>: after the model is constructed and the datasets are loaded it fits
  the system template and generates. No call trains the model: the driver never calls
  FineTuner, and it never uses training_arguments, output_path or the validation set.
\<close>

theorem C1_run_without_training:
  "fst (main (demo_env True demo_config) r0) = Inr demo_locals \<and>
   trace (snd (main (demo_env True demo_config) r0)) = demo_trace"
  by (simp add: demo_main)

subsection \<open>The claims on the small environment\<close>

theorem C2_witness:
  "fst (main (demo_env True demo_config) 0) = Inr demo_locals \<and>
   (\<forall>m ids gc r. length (fst (generate (demo_env True demo_config) m ids gc r))
      = nat (num_return_sequences gc)) \<and>
   length (l_outputs demo_locals) = 4 \<and>
   stdout (snd (main (demo_env True demo_config) 0)) =
     [[CHR 0x0A] @ ''###########'' @ [CHR 0x0A] @ '' fact o1'' @ [CHR 0x0A],
      [CHR 0x0A] @ ''###########'' @ [CHR 0x0A] @ '' fact o2'' @ [CHR 0x0A],
      [CHR 0x0A] @ ''###########'' @ [CHR 0x0A] @ '' fact o3'' @ [CHR 0x0A],
      [CHR 0x0A] @ ''###########'' @ [CHR 0x0A] @ '' fact o4'' @ [CHR 0x0A]]"
proof -
  have h: "fst (main (demo_env True demo_config) 0) = Inr demo_locals"
    by (simp add: demo_main)
  have n: "\<forall>m ids gc r. length (fst (generate (demo_env True demo_config) m ids gc r))
      = nat (num_return_sequences gc)"
    by (simp add: demo_sel)
  from C2_generation_sanity_check[OF h] obtain pre r1 r2 r3 where
    s: "stdout (snd (main (demo_env True demo_config) 0)) =
          map (\<lambda>t. [CHR 0x0A] @ ''###########'' @ [CHR 0x0A] @ '' '' @ t @ [CHR 0x0A]) (l_texts demo_locals)"
    and k: "(\<forall>m ids gc r. length (fst (generate (demo_env True demo_config) m ids gc r))
             = nat (num_return_sequences gc))
        \<longrightarrow> length (l_outputs demo_locals) = 4 \<and> length (l_texts demo_locals) = 4 \<and>
            length (stdout (snd (main (demo_env True demo_config) 0))) = 4"
    by blast
  from k n have "length (l_outputs demo_locals) = 4" by blast
  with h n s show ?thesis by (simp add: demo_locals_def)
qed

theorem C4_witness:
  "list_ex is_ModelDispatcher (trace (snd (main (demo_env True demo_config) 0))) \<and>
   list_ex is_generate (trace (snd (main (demo_env True demo_config) 0))) \<and>
   all_before is_ModelDispatcher is_generate (trace (snd (main (demo_env True demo_config) 0))) \<and>
   all_before is_parse is_dispatch (trace (snd (main (demo_env True demo_config) 0))) \<and>
   sorted (map stage_of (trace (snd (main (demo_env True demo_config) 0))))"
proof -
  have g: "list_ex is_generate (trace (snd (main (demo_env True demo_config) 0)))"
    by (simp add: demo_main demo_trace_def is_generate_def)
  from C4_pipeline_order[of "demo_env True demo_config" 0] g show ?thesis
    by simp
qed

theorem C3_witness:
  "Ev_generate ''proxy'' ''ids''
     \<lparr>max_new_tokens = 100, num_return_sequences = 4, temperature = 6 / 10,
      top_p = 9 / 10, do_sample = True, pad_token_id = Some 2\<rparr>
     \<in> set (trace (snd (main (demo_env True demo_config) 0))) \<and>
   filter is_alignment (trace (snd (main (demo_env True demo_config) 0))) =
     [Ev_fit_system_template_tokens ''train''
        \<lparr>postprocess_function = ''pp'', model_template_rest = ''tmpl''\<rparr> ''tokenizer'',
      Ev_add_proxy ''model'' ''template'' ''tokenizer'']"
proof -
  define D where "D = demo_env True demo_config"
  have g: "Ev_generate ''proxy'' ''ids''
     \<lparr>max_new_tokens = 100, num_return_sequences = 4, temperature = 6 / 10,
      top_p = 9 / 10, do_sample = True, pad_token_id = Some 2\<rparr>
     \<in> set (trace (snd (main D 0)))"
    unfolding D_def by (simp add: demo_main demo_trace_def)
  have h: "fst (main D 0) = Inr demo_locals"
    unfolding D_def by (simp add: demo_main)
  have c: "peft_recipe (parsed_config D) =
      Some \<lparr>peft_config_obj = PromptTuningConfig, peft_recipe_rest = ''pt''\<rparr>"
    "system_tuning (parsed_config D)"
    "model_template_recipe (parsed_config D) =
      \<lparr>postprocess_function = ''pp'', model_template_rest = ''tmpl''\<rparr>"
    unfolding D_def by (simp_all add: parsed_config_def demo_sel demo_config_def)
  have f: "\<And>d r t rb. fst (fit_system_template_tokens D d r t rb) = ''template''"
    unfolding D_def by (simp add: demo_sel)
  from C3_alignment_step[OF g] obtain tok qc pc base dt rt ra rb rc where
    i: "if (\<exists>pr. peft_recipe (parsed_config D) = Some pr \<and>
                   peft_config_obj pr = PromptTuningConfig) \<and>
         system_tuning (parsed_config D)
      then filter is_alignment (trace (snd (main D 0))) =
             [Ev_fit_system_template_tokens dt (model_template_recipe (parsed_config D)) tok,
              Ev_add_proxy base
                (fst (fit_system_template_tokens D dt (model_template_recipe (parsed_config D)) tok rb)) tok] \<and>
           ''proxy'' = fst (SystemTuning_add_proxy D base
                (fst (fit_system_template_tokens D dt (model_template_recipe (parsed_config D)) tok rb)) tok rc)
      else filter is_alignment (trace (snd (main D 0))) = [] \<and> ''proxy'' = base"
    and L: "\<forall>L. fst (main D 0) = Inr L \<longrightarrow>
        l_tokenizer L = tok \<and> l_quantization_config L = qc \<and> l_peft_config L = pc \<and>
        l_base_model L = base \<and> l_dataset_train L = dt \<and> l_model L = ''proxy''"
    by blast
  from L h have e: "tok = ''tokenizer''" "base = ''model''" "dt = ''train''"
    by (auto simp: demo_locals_def)
  from i c have "filter is_alignment (trace (snd (main D 0))) =
             [Ev_fit_system_template_tokens dt (model_template_recipe (parsed_config D)) tok,
              Ev_add_proxy base
                (fst (fit_system_template_tokens D dt (model_template_recipe (parsed_config D)) tok rb)) tok]"
    by simp
  then have "filter is_alignment (trace (snd (main D 0))) =
     [Ev_fit_system_template_tokens ''train''
        \<lparr>postprocess_function = ''pp'', model_template_rest = ''tmpl''\<rparr> ''tokenizer'',
      Ev_add_proxy ''model'' ''template'' ''tokenizer'']"
    unfolding e c f by simp
  with g show ?thesis unfolding D_def by simp
qed

theorem C8_witness:
  "peft_recipe demo_config =
     Some \<lparr>peft_config_obj = PromptTuningConfig, peft_recipe_rest = ''pt''\<rparr> \<and>
   prompt_tuning_most_common_init demo_config \<and>
   fst (peft_stage (demo_env True demo_config) demo_config
          \<lparr>trace = [], rng = 42, stdout = []\<rparr>) =
     Some \<lparr>num_virtual_tokens = 2, prompt_tuning_init_text = Some ''the cat'',
           peft_config_rest = ''pt''\<rparr>"
proof -
  have h: "peft_recipe demo_config =
     Some \<lparr>peft_config_obj = PromptTuningConfig, peft_recipe_rest = ''pt''\<rparr>"
    "prompt_tuning_most_common_init demo_config"
    by (simp_all add: demo_config_def)
  from C8_prompt_tuning_init_text[of demo_config "demo_env True demo_config"
      "\<lparr>trace = [], rng = 42, stdout = []\<rparr>", THEN conjunct1, rule_format, of
      "\<lparr>peft_config_obj = PromptTuningConfig, peft_recipe_rest = ''pt''\<rparr>"] h
  show ?thesis
    by (auto simp: demo_sel demo_lower)
qed

theorem C7_witness:
  "validation_split_size noval_config = None \<and>
   fst (driver (demo_env False noval_config) noval_config \<lparr>trace = [], rng = 0, stdout = []\<rparr>) =
     Inl (AssertionError
       ''No validation set is available but validation split size has not been specified'')"
proof -
  define w0 where "w0 = (\<lparr>trace = [], rng = 0, stdout = []\<rparr> :: (string, nat) world)"
  define pc where "pc = fst (peft_stage (demo_env False noval_config) noval_config w0)"
  define w1 where "w1 = snd (peft_stage (demo_env False noval_config) noval_config w0)"
  define w2 where "w2 = snd (model_stage (demo_env False noval_config) noval_config pc w1)"
  have n: "validation_split_size noval_config = None"
    by (simp add: noval_config_def)
  have p: "peft_stage (demo_env False noval_config) noval_config w0 = (pc, w1)"
    by (simp add: pc_def w1_def)
  have ms: "model_stage (demo_env False noval_config) noval_config pc w1 =
      ((''tokenizer'', Some ''bnb'', ''model''), w2)"
    unfolding w2_def
    by (simp add: model_stage_def quantization_stage_def ext_eq demo_sel noval_config_def
        demo_config_def split: prod.splits)
  have a3: "DatasetDispatcher_get_support_and_tuning_dataset (demo_env False noval_config)
           (dataset_recipe noval_config) (dataset_name noval_config)
           \<lparr>kw_split = ''train'', kw_num_examples = Some (num_examples noval_config),
              kw_dataset_support = None,
              kw_postprocess_function = postprocess_function (model_template_recipe noval_config),
              kw_eos_token = eos_token (demo_env False noval_config) ''tokenizer'', kw_include_labels_inside_text = True,
              kw_num_proc = num_proc noval_config, kw_dynamic_examples = dynamic_examples noval_config\<rparr>
           (rng w2) = (Some (''support'', ''train''), rng w2)"
    by (simp add: demo_sel)
  have a4: "DatasetDispatcher_get_support_and_tuning_dataset (demo_env False noval_config)
           (dataset_recipe noval_config) (dataset_name noval_config)
           \<lparr>kw_split = ''validation'', kw_num_examples = None,
              kw_dataset_support = Some ''support'',
              kw_postprocess_function = postprocess_function (model_template_recipe noval_config),
              kw_eos_token = eos_token (demo_env False noval_config) ''tokenizer'', kw_include_labels_inside_text = True,
              kw_num_proc = num_proc noval_config, kw_dynamic_examples = dynamic_examples noval_config\<rparr>
           (rng w2) = (None, rng w2)"
    by (simp add: demo_sel)
  from C7_validation_fallback[OF p ms a3 a4] n show ?thesis
    unfolding w0_def by blast
qed

theorem C5_witness:
  "fst (main (demo_env True demo_config) 0) = Inr demo_locals \<and>
   Ev_TokenizerDispatcher ''tok'' ''llama''
     \<in> set (trace (snd (main (demo_env True demo_config) 0))) \<and>
   length (filter is_TokenizerDispatcher (trace (snd (main (demo_env True demo_config) 0)))) = 1 \<and>
   (\<exists>r. ''tokenizer'' =
      fst (TokenizerDispatcher_get_tokenizer (demo_env True demo_config) ''tok'' ''llama'' r))"
proof -
  define D where "D = demo_env True demo_config"
  have h: "fst (main D 0) = Inr demo_locals"
    unfolding D_def by (simp add: demo_main)
  have e: "Ev_TokenizerDispatcher ''tok'' ''llama'' \<in> set (trace (snd (main D 0)))"
    unfolding D_def by (simp add: demo_main demo_trace_def)
  have c: "tokenizer_recipe (parsed_config D) = ''tok''" "model_name (parsed_config D) = ''llama''"
    unfolding D_def by (simp_all add: parsed_config_def demo_sel demo_config_def)
  note t = C5_dispatchers_build_the_objects[of D 0]
  from t have "\<forall>L. fst (main D 0) = Inr L \<longrightarrow>
      length (filter is_TokenizerDispatcher (trace (snd (main D 0)))) = 1 \<and>
      (\<exists>r. l_tokenizer L = fst (TokenizerDispatcher_get_tokenizer D
              (tokenizer_recipe (parsed_config D)) (model_name (parsed_config D)) r))"
    by (elim conjE) blast
  with h have n: "length (filter is_TokenizerDispatcher (trace (snd (main D 0)))) = 1"
    and "\<exists>r. l_tokenizer demo_locals = fst (TokenizerDispatcher_get_tokenizer D
              (tokenizer_recipe (parsed_config D)) (model_name (parsed_config D)) r)"
    by blast+
  then have "\<exists>r. ''tokenizer'' = fst (TokenizerDispatcher_get_tokenizer D ''tok'' ''llama'' r)"
    unfolding c by (simp add: demo_locals_def)
  with h e n show ?thesis unfolding D_def by simp
qed

end
